theory Spec2Isabelle
  imports Main "HOL-Library.AList"
begin

section \<open>Framework values\<close>

text \<open>
  The plugin framework's attribute values (\<open>types.String\<close>, \<open>types.Int64\<close>,
  \<open>types.Bool\<close>) are three-valued: null, unknown, or a known value. The accessors
  \<open>ValueString\<close>, \<open>ValueInt64\<close> and \<open>ValueBool\<close> return the zero value of the
  Go type when the attribute is null or unknown.
\<close>

datatype 'a tfvalue = Null | Unknown | Known 'a

fun IsNull :: "'a tfvalue \<Rightarrow> bool" where
  "IsNull Null = True"
| "IsNull Unknown = False"
| "IsNull (Known v) = False"

fun IsUnknown :: "'a tfvalue \<Rightarrow> bool" where
  "IsUnknown Null = False"
| "IsUnknown Unknown = True"
| "IsUnknown (Known v) = False"

fun ValueString :: "string tfvalue \<Rightarrow> string" where
  "ValueString (Known s) = s"
| "ValueString Null = []"
| "ValueString Unknown = []"

fun ValueInt64 :: "int tfvalue \<Rightarrow> int" where
  "ValueInt64 (Known i) = i"
| "ValueInt64 Null = 0"
| "ValueInt64 Unknown = 0"

fun ValueBool :: "bool tfvalue \<Rightarrow> bool" where
  "ValueBool (Known b) = b"
| "ValueBool Null = False"
| "ValueBool Unknown = False"

text \<open>A diagnostic added with \<open>resp.Diagnostics.AddError(summary, detail)\<close>.\<close>

record diagnostic =
  Summary :: string
  Detail :: string

section \<open>Library functions of the Go standard library\<close>

text \<open>
  \<open>strings.TrimRight(s, cutset)\<close> removes every trailing character of \<open>s\<close> that
  occurs in \<open>cutset\<close>. The only cutset of the program is the one-byte string \<open>/\<close>.
\<close>

definition TrimRight :: "string \<Rightarrow> string \<Rightarrow> string" where
  "TrimRight s cutset = rev (dropWhile (\<lambda>c. c \<in> set cutset) (rev s))"

text \<open>
  \<open>strings.SplitN(s, sep, n)\<close> for a one-byte separator and \<open>n \<ge> 0\<close>: at most
  \<open>n\<close> substrings, the last one being the unsplit remainder.
\<close>

fun SplitN :: "string \<Rightarrow> char \<Rightarrow> nat \<Rightarrow> string list" where
  "SplitN s sep 0 = []"
| "SplitN s sep (Suc 0) = [s]"
| "SplitN s sep (Suc (Suc n)) =
     (if sep \<in> set s
      then takeWhile (\<lambda>c. c \<noteq> sep) s # SplitN (tl (dropWhile (\<lambda>c. c \<noteq> sep) s)) sep (Suc n)
      else [s])"

text \<open>The verb \<open>%d\<close> of \<open>fmt\<close> on an \<open>int\<close>: decimal digits, a minus sign when negative.\<close>

definition digit :: "nat \<Rightarrow> char" where
  "digit d = ''0123456789'' ! d"

fun itoa_nat :: "nat \<Rightarrow> string" where
  "itoa_nat n =
     (if n < 10 then [digit n]
      else itoa_nat (n div 10) @ [digit (n mod 10)])"

declare itoa_nat.simps [simp del]

definition Itoa :: "int \<Rightarrow> string" where
  "Itoa i = (if i < 0 then CHR ''-'' # itoa_nat (nat (- i)) else itoa_nat (nat i))"

section \<open>API structures\<close>

record hostResourceModel =
  hm_ID :: "int tfvalue"
  hm_Address :: "string tfvalue"
  hm_Name :: "string tfvalue"
  hm_Description :: "string tfvalue"
  hm_Topic :: "string tfvalue"
  hm_Enabled :: "bool tfvalue"

record hostAPIRequest =
  hq_Address :: string
  hq_Name :: string
  hq_Description :: string
  hq_Topic :: string
  hq_Enabled :: int

record hostAPIResponse =
  hr_ID :: int
  hr_Name :: string
  hr_Address :: string
  hr_Description :: string
  hr_Topic :: string
  hr_Enabled :: int

record hostDeleteRequest =
  hd_Address :: string

record checkResourceModel =
  cm_ID :: "int tfvalue"
  cm_HostAddress :: "string tfvalue"
  cm_Type :: "string tfvalue"
  cm_Config :: "string tfvalue"
  cm_IntervalSeconds :: "int tfvalue"
  cm_Enabled :: "bool tfvalue"

record checkAPIRequest =
  cq_HostAddress :: string
  cq_Type :: string
  cq_Config :: string
  cq_IntervalSeconds :: int
  cq_Enabled :: int

record checkAPIResponse =
  cr_ID :: int
  cr_HostID :: int
  cr_Type :: string
  cr_Config :: string
  cr_IntervalSeconds :: int
  cr_Enabled :: int

record checkDeleteRequest =
  cd_HostAddress :: string
  cd_Type :: string
  cd_Config :: string

text \<open>
  \<open>DoJSON\<close> takes its request body and its result destination as \<open>interface{}\<close>.
  The program passes four struct types as bodies and pointers to two struct types as
  destinations; \<open>nil\<close> is \<open>None\<close>.
\<close>

datatype api_body =
  HostRequest hostAPIRequest
| HostDelete hostDeleteRequest
| CheckRequest checkAPIRequest
| CheckDelete checkDeleteRequest

datatype api_result =
  HostResult hostAPIResponse
| CheckResult checkAPIResponse

section \<open>The API client\<close>

record http_request =
  Method :: string
  Url :: string
  Body :: "string option"
  Header :: "(string \<times> string) list"

text \<open>
  What \<open>c.HTTP.Do\<close> returns when it does not fail: the status code and the body
  stream, which \<open>io.ReadAll\<close> either reads to the end (\<open>Inr\<close>) or fails on (\<open>Inl\<close>).
\<close>

record http_response =
  StatusCode :: int
  RespBody :: "string + string"

record TinyMonClient =
  URL :: string
  APIKey :: string
  HTTP :: "http_request \<Rightarrow> string + http_response"

text \<open>
  The library functions the program calls and does not define: \<open>json.Marshal\<close>
  (error or bytes), \<open>json.Unmarshal\<close> into each of the two destination types (an
  error or none, and the destination's contents afterwards), the validation of
  \<open>http.NewRequest\<close> (an error or none, from method and URL) and \<open>url.QueryEscape\<close>.
\<close>

record library =
  json_Marshal :: "api_body \<Rightarrow> string + string"
  json_Unmarshal_host :: "string \<Rightarrow> hostAPIResponse \<Rightarrow> string option \<times> hostAPIResponse"
  json_Unmarshal_check :: "string \<Rightarrow> checkAPIResponse \<Rightarrow> string option \<times> checkAPIResponse"
  http_NewRequest :: "string \<Rightarrow> string \<Rightarrow> string option"
  url_QueryEscape :: "string \<Rightarrow> string"

fun json_Unmarshal :: "library \<Rightarrow> string \<Rightarrow> api_result \<Rightarrow> string option \<times> api_result" where
  "json_Unmarshal L data (HostResult r) =
     (case json_Unmarshal_host L data r of (e, r') \<Rightarrow> (e, HostResult r'))"
| "json_Unmarshal L data (CheckResult r) =
     (case json_Unmarshal_check L data r of (e, r') \<Rightarrow> (e, CheckResult r'))"

text \<open>The errors \<open>DoJSON\<close> returns, and the text \<open>err.Error()\<close> gives for each.\<close>

datatype dojson_error =
  MarshalError string
| CreateRequestError string
| ExecuteError string string string
| ReadBodyError string
| APIError string string int string
| UnmarshalError string

fun Error :: "dojson_error \<Rightarrow> string" where
  "Error (MarshalError e) = ''marshalling request body: '' @ e"
| "Error (CreateRequestError e) = ''creating request: '' @ e"
| "Error (ExecuteError method path e) =
     ''executing request '' @ method @ '' '' @ path @ '': '' @ e"
| "Error (ReadBodyError e) = ''reading response body: '' @ e"
| "Error (APIError method path status body) =
     ''API '' @ method @ '' '' @ path @ '' returned status '' @ Itoa status @ '': '' @ body"
| "Error (UnmarshalError e) = ''unmarshalling response: '' @ e"

text \<open>
  The outcome of one call of \<open>DoJSON\<close>: the request handed to \<open>c.HTTP.Do\<close> (none
  when the call returned before sending), the returned error (\<open>None\<close> is \<open>nil\<close>),
  and the contents of the result destination when the call returns.
\<close>

record dojson_out =
  sent :: "http_request option"
  err :: "dojson_error option"
  result :: "api_result option"

definition DoJSON ::
  "library \<Rightarrow> TinyMonClient \<Rightarrow> string \<Rightarrow> string \<Rightarrow> api_body option \<Rightarrow> api_result option
     \<Rightarrow> dojson_out" where
  "DoJSON L c method path body res =
     (let url = TrimRight (URL c) ''/'' @ path in
      case (case body of None \<Rightarrow> Inr None
            | Some b \<Rightarrow> (case json_Marshal L b of Inl e \<Rightarrow> Inl e | Inr data \<Rightarrow> Inr (Some data))) of
        Inl e \<Rightarrow> \<lparr>sent = None, err = Some (MarshalError e), result = res\<rparr>
      | Inr reqBody \<Rightarrow>
         (case http_NewRequest L method url of
            Some e \<Rightarrow> \<lparr>sent = None, err = Some (CreateRequestError e), result = res\<rparr>
          | None \<Rightarrow>
             (let h1 = AList.update ''Authorization'' (''Bearer '' @ APIKey c) [];
                  h2 = (if body \<noteq> None then AList.update ''Content-Type'' ''application/json'' h1
                        else h1);
                  h3 = AList.update ''Accept'' ''application/json'' h2;
                  req = \<lparr>Method = method, Url = url, Body = reqBody, Header = h3\<rparr>
              in case HTTP c req of
                   Inl e \<Rightarrow>
                     \<lparr>sent = Some req, err = Some (ExecuteError method path e), result = res\<rparr>
                 | Inr resp \<Rightarrow>
                    (case RespBody resp of
                       Inl e \<Rightarrow> \<lparr>sent = Some req, err = Some (ReadBodyError e), result = res\<rparr>
                     | Inr respBody \<Rightarrow>
                        if StatusCode resp < 200 \<or> StatusCode resp \<ge> 300
                        then \<lparr>sent = Some req,
                              err = Some (APIError method path (StatusCode resp) respBody),
                              result = res\<rparr>
                        else (case res of
                                Some r \<Rightarrow>
                                  if length respBody > 0
                                  then (case json_Unmarshal L respBody r of
                                          (Some e, r') \<Rightarrow>
                                            \<lparr>sent = Some req, err = Some (UnmarshalError e),
                                             result = Some r'\<rparr>
                                        | (None, r') \<Rightarrow>
                                            \<lparr>sent = Some req, err = None, result = Some r'\<rparr>)
                                  else \<lparr>sent = Some req, err = None, result = res\<rparr>
                              | None \<Rightarrow> \<lparr>sent = Some req, err = None, result = res\<rparr>)))))"

section \<open>Resource handlers\<close>

text \<open>
  A handler receives the decoded plan or prior state (\<open>req.Plan.Get\<close>,
  \<open>req.State.Get\<close>) and the response state \<open>resp.State\<close> as the framework hands it
  over (\<open>None\<close> is the null state of a resource that does not exist). It returns the
  request it sent, the diagnostics it added and the response state it leaves.
\<close>

record 'm handler_out =
  wire :: "http_request option"
  Diagnostics :: "diagnostic list"
  State :: "'m option"

subsection \<open>Hosts\<close>

definition mapHostResponseToState :: "hostAPIResponse \<Rightarrow> hostResourceModel \<Rightarrow> hostResourceModel" where
  "mapHostResponseToState apiResp state =
     state\<lparr>hm_ID := Known (hr_ID apiResp),
           hm_Address := Known (hr_Address apiResp),
           hm_Name := Known (hr_Name apiResp),
           hm_Description := Known (hr_Description apiResp),
           hm_Topic := Known (hr_Topic apiResp),
           hm_Enabled := Known (hr_Enabled apiResp \<noteq> 0)\<rparr>"

text \<open>\<open>var result hostAPIResponse\<close>: the zero value of the struct.\<close>

definition zeroHostAPIResponse :: hostAPIResponse where
  "zeroHostAPIResponse =
     \<lparr>hr_ID = 0, hr_Name = [], hr_Address = [], hr_Description = [], hr_Topic = [],
      hr_Enabled = 0\<rparr>"

text \<open>
  Reading the local variable \<open>result\<close> back after \<open>DoJSON\<close> was given \<open>&result\<close>.
  The second equation is never reached (\<open>DoJSON\<close> keeps the destination's type).
\<close>

fun hostResultOf :: "api_result option \<Rightarrow> hostAPIResponse" where
  "hostResultOf (Some (HostResult r)) = r"
| "hostResultOf other = zeroHostAPIResponse"

text \<open>The request body \<open>hostResource.Create\<close> builds from the plan.\<close>

definition hostCreateBody :: "hostResourceModel \<Rightarrow> hostAPIRequest" where
  "hostCreateBody plan =
     (let enabled = (if \<not> IsNull (hm_Enabled plan) \<and> \<not> ValueBool (hm_Enabled plan)
                     then 0 else 1)
      in \<lparr>hq_Address = ValueString (hm_Address plan),
          hq_Name = ValueString (hm_Name plan),
          hq_Description = ValueString (hm_Description plan),
          hq_Topic = ValueString (hm_Topic plan),
          hq_Enabled = enabled\<rparr>)"

definition hostCreate ::
  "library \<Rightarrow> TinyMonClient \<Rightarrow> hostResourceModel \<Rightarrow> hostResourceModel option
     \<Rightarrow> hostResourceModel handler_out" where
  "hostCreate L c plan respState =
     (let body = hostCreateBody plan;
          out = DoJSON L c ''POST'' ''/api/push/hosts'' (Some (HostRequest body))
                  (Some (HostResult zeroHostAPIResponse))
      in case err out of
           Some e \<Rightarrow>
             \<lparr>wire = sent out,
              Diagnostics = [\<lparr>Summary = ''Error creating host'', Detail = Error e\<rparr>],
              State = respState\<rparr>
         | None \<Rightarrow>
             \<lparr>wire = sent out, Diagnostics = [],
              State = Some (mapHostResponseToState (hostResultOf (result out)) plan)\<rparr>)"

definition hostRead ::
  "library \<Rightarrow> TinyMonClient \<Rightarrow> hostResourceModel \<Rightarrow> hostResourceModel option
     \<Rightarrow> hostResourceModel handler_out" where
  "hostRead L c state respState =
     (let apiPath = ''/api/push/hosts?address='' @ url_QueryEscape L (ValueString (hm_Address state));
          out = DoJSON L c ''GET'' apiPath None (Some (HostResult zeroHostAPIResponse))
      in case err out of
           Some e \<Rightarrow>
             \<lparr>wire = sent out,
              Diagnostics = [\<lparr>Summary = ''Error reading host'', Detail = Error e\<rparr>],
              State = respState\<rparr>
         | None \<Rightarrow>
             \<lparr>wire = sent out, Diagnostics = [],
              State = Some (mapHostResponseToState (hostResultOf (result out)) state)\<rparr>)"

text \<open>The request body \<open>hostResource.Update\<close> builds from the plan.\<close>

definition hostUpdateBody :: "hostResourceModel \<Rightarrow> hostAPIRequest" where
  "hostUpdateBody plan =
     (let enabled = (if \<not> IsNull (hm_Enabled plan) \<and> \<not> ValueBool (hm_Enabled plan)
                     then 0 else 1)
      in \<lparr>hq_Address = ValueString (hm_Address plan),
          hq_Name = ValueString (hm_Name plan),
          hq_Description = ValueString (hm_Description plan),
          hq_Topic = ValueString (hm_Topic plan),
          hq_Enabled = enabled\<rparr>)"

definition hostUpdate ::
  "library \<Rightarrow> TinyMonClient \<Rightarrow> hostResourceModel \<Rightarrow> hostResourceModel option
     \<Rightarrow> hostResourceModel handler_out" where
  "hostUpdate L c plan respState =
     (let body = hostUpdateBody plan;
          out = DoJSON L c ''POST'' ''/api/push/hosts'' (Some (HostRequest body))
                  (Some (HostResult zeroHostAPIResponse))
      in case err out of
           Some e \<Rightarrow>
             \<lparr>wire = sent out,
              Diagnostics = [\<lparr>Summary = ''Error updating host'', Detail = Error e\<rparr>],
              State = respState\<rparr>
         | None \<Rightarrow>
             \<lparr>wire = sent out, Diagnostics = [],
              State = Some (mapHostResponseToState (hostResultOf (result out)) plan)\<rparr>)"

text \<open>
  \<open>hostResource.Delete\<close> never writes \<open>resp.State\<close>; removing the resource after a
  delete without error is the framework's step, not the handler's.
\<close>

definition hostDelete ::
  "library \<Rightarrow> TinyMonClient \<Rightarrow> hostResourceModel \<Rightarrow> hostResourceModel option
     \<Rightarrow> hostResourceModel handler_out" where
  "hostDelete L c state respState =
     (let body = \<lparr>hd_Address = ValueString (hm_Address state)\<rparr>;
          out = DoJSON L c ''DELETE'' ''/api/push/hosts'' (Some (HostDelete body)) None
      in case err out of
           Some e \<Rightarrow>
             \<lparr>wire = sent out,
              Diagnostics = [\<lparr>Summary = ''Error deleting host'', Detail = Error e\<rparr>],
              State = respState\<rparr>
         | None \<Rightarrow> \<lparr>wire = sent out, Diagnostics = [], State = respState\<rparr>)"

text \<open>
  \<open>resp.State.SetAttribute(ctx, path.Root(name), value)\<close> with a Go string: the
  string attribute named by the struct's \<open>tfsdk\<close> tag becomes the known value; on
  the null state the other attributes are null. The program sets \<open>address\<close> of a
  host and \<open>host_address\<close>, \<open>type\<close> and \<open>config\<close> of a check; the last branch
  (no string attribute of that name) is not reached by it.
\<close>

definition nullHostResourceModel :: hostResourceModel where
  "nullHostResourceModel =
     \<lparr>hm_ID = Null, hm_Address = Null, hm_Name = Null, hm_Description = Null,
      hm_Topic = Null, hm_Enabled = Null\<rparr>"

definition hostSetAttribute ::
  "string \<Rightarrow> string \<Rightarrow> hostResourceModel option \<Rightarrow> hostResourceModel option" where
  "hostSetAttribute name v st =
     (let m = (case st of None \<Rightarrow> nullHostResourceModel | Some m \<Rightarrow> m) in
      if name = ''address'' then Some (m\<lparr>hm_Address := Known v\<rparr>)
      else if name = ''name'' then Some (m\<lparr>hm_Name := Known v\<rparr>)
      else if name = ''description'' then Some (m\<lparr>hm_Description := Known v\<rparr>)
      else if name = ''topic'' then Some (m\<lparr>hm_Topic := Known v\<rparr>)
      else st)"

definition hostImportState ::
  "string \<Rightarrow> hostResourceModel option \<Rightarrow> hostResourceModel handler_out" where
  "hostImportState ID respState =
     \<lparr>wire = None, Diagnostics = [], State = hostSetAttribute ''address'' ID respState\<rparr>"

subsection \<open>Checks\<close>

definition mapCheckResponseToState ::
  "checkAPIResponse \<Rightarrow> checkResourceModel \<Rightarrow> checkResourceModel" where
  "mapCheckResponseToState apiResp state =
     state\<lparr>cm_ID := Known (cr_ID apiResp),
           cm_Type := Known (cr_Type apiResp),
           cm_Config := Known (cr_Config apiResp),
           cm_IntervalSeconds := Known (cr_IntervalSeconds apiResp),
           cm_Enabled := Known (cr_Enabled apiResp \<noteq> 0)\<rparr>"

text \<open>\<open>var result checkAPIResponse\<close>: the zero value of the struct.\<close>

definition zeroCheckAPIResponse :: checkAPIResponse where
  "zeroCheckAPIResponse =
     \<lparr>cr_ID = 0, cr_HostID = 0, cr_Type = [], cr_Config = [], cr_IntervalSeconds = 0,
      cr_Enabled = 0\<rparr>"

fun checkResultOf :: "api_result option \<Rightarrow> checkAPIResponse" where
  "checkResultOf (Some (CheckResult r)) = r"
| "checkResultOf other = zeroCheckAPIResponse"

text \<open>The request body \<open>checkResource.Create\<close> builds from the plan.\<close>

definition checkCreateBody :: "checkResourceModel \<Rightarrow> checkAPIRequest" where
  "checkCreateBody plan =
     (let enabled = (if \<not> IsNull (cm_Enabled plan) \<and> \<not> ValueBool (cm_Enabled plan)
                     then 0 else 1)
      in \<lparr>cq_HostAddress = ValueString (cm_HostAddress plan),
          cq_Type = ValueString (cm_Type plan),
          cq_Config = ValueString (cm_Config plan),
          cq_IntervalSeconds = ValueInt64 (cm_IntervalSeconds plan),
          cq_Enabled = enabled\<rparr>)"

definition checkCreate ::
  "library \<Rightarrow> TinyMonClient \<Rightarrow> checkResourceModel \<Rightarrow> checkResourceModel option
     \<Rightarrow> checkResourceModel handler_out" where
  "checkCreate L c plan respState =
     (let body = checkCreateBody plan;
          out = DoJSON L c ''POST'' ''/api/push/checks'' (Some (CheckRequest body))
                  (Some (CheckResult zeroCheckAPIResponse))
      in case err out of
           Some e \<Rightarrow>
             \<lparr>wire = sent out,
              Diagnostics = [\<lparr>Summary = ''Error creating check'', Detail = Error e\<rparr>],
              State = respState\<rparr>
         | None \<Rightarrow>
             \<lparr>wire = sent out, Diagnostics = [],
              State = Some (mapCheckResponseToState (checkResultOf (result out)) plan)\<rparr>)"

definition checkRead ::
  "library \<Rightarrow> TinyMonClient \<Rightarrow> checkResourceModel \<Rightarrow> checkResourceModel option
     \<Rightarrow> checkResourceModel handler_out" where
  "checkRead L c state respState =
     (let queryPath =
            ''/api/push/checks?host_address=''
              @ url_QueryEscape L (ValueString (cm_HostAddress state))
              @ ''&type='' @ url_QueryEscape L (ValueString (cm_Type state))
              @ ''&config='' @ url_QueryEscape L (ValueString (cm_Config state));
          out = DoJSON L c ''GET'' queryPath None (Some (CheckResult zeroCheckAPIResponse))
      in case err out of
           Some e \<Rightarrow>
             \<lparr>wire = sent out,
              Diagnostics = [\<lparr>Summary = ''Error reading check'', Detail = Error e\<rparr>],
              State = respState\<rparr>
         | None \<Rightarrow>
             \<lparr>wire = sent out, Diagnostics = [],
              State = Some (mapCheckResponseToState (checkResultOf (result out)) state)\<rparr>)"

text \<open>The request body \<open>checkResource.Update\<close> builds from the plan.\<close>

definition checkUpdateBody :: "checkResourceModel \<Rightarrow> checkAPIRequest" where
  "checkUpdateBody plan =
     (let enabled = (if \<not> IsNull (cm_Enabled plan) \<and> \<not> ValueBool (cm_Enabled plan)
                     then 0 else 1)
      in \<lparr>cq_HostAddress = ValueString (cm_HostAddress plan),
          cq_Type = ValueString (cm_Type plan),
          cq_Config = ValueString (cm_Config plan),
          cq_IntervalSeconds = ValueInt64 (cm_IntervalSeconds plan),
          cq_Enabled = enabled\<rparr>)"

definition checkUpdate ::
  "library \<Rightarrow> TinyMonClient \<Rightarrow> checkResourceModel \<Rightarrow> checkResourceModel option
     \<Rightarrow> checkResourceModel handler_out" where
  "checkUpdate L c plan respState =
     (let body = checkUpdateBody plan;
          out = DoJSON L c ''POST'' ''/api/push/checks'' (Some (CheckRequest body))
                  (Some (CheckResult zeroCheckAPIResponse))
      in case err out of
           Some e \<Rightarrow>
             \<lparr>wire = sent out,
              Diagnostics = [\<lparr>Summary = ''Error updating check'', Detail = Error e\<rparr>],
              State = respState\<rparr>
         | None \<Rightarrow>
             \<lparr>wire = sent out, Diagnostics = [],
              State = Some (mapCheckResponseToState (checkResultOf (result out)) plan)\<rparr>)"

definition checkDelete ::
  "library \<Rightarrow> TinyMonClient \<Rightarrow> checkResourceModel \<Rightarrow> checkResourceModel option
     \<Rightarrow> checkResourceModel handler_out" where
  "checkDelete L c state respState =
     (let body = \<lparr>cd_HostAddress = ValueString (cm_HostAddress state),
                  cd_Type = ValueString (cm_Type state),
                  cd_Config = ValueString (cm_Config state)\<rparr>;
          out = DoJSON L c ''DELETE'' ''/api/push/checks'' (Some (CheckDelete body)) None
      in case err out of
           Some e \<Rightarrow>
             \<lparr>wire = sent out,
              Diagnostics = [\<lparr>Summary = ''Error deleting check'', Detail = Error e\<rparr>],
              State = respState\<rparr>
         | None \<Rightarrow> \<lparr>wire = sent out, Diagnostics = [], State = respState\<rparr>)"

definition nullCheckResourceModel :: checkResourceModel where
  "nullCheckResourceModel =
     \<lparr>cm_ID = Null, cm_HostAddress = Null, cm_Type = Null, cm_Config = Null,
      cm_IntervalSeconds = Null, cm_Enabled = Null\<rparr>"

definition checkSetAttribute ::
  "string \<Rightarrow> string \<Rightarrow> checkResourceModel option \<Rightarrow> checkResourceModel option" where
  "checkSetAttribute name v st =
     (let m = (case st of None \<Rightarrow> nullCheckResourceModel | Some m \<Rightarrow> m) in
      if name = ''host_address'' then Some (m\<lparr>cm_HostAddress := Known v\<rparr>)
      else if name = ''type'' then Some (m\<lparr>cm_Type := Known v\<rparr>)
      else if name = ''config'' then Some (m\<lparr>cm_Config := Known v\<rparr>)
      else st)"

definition checkImportState ::
  "string \<Rightarrow> checkResourceModel option \<Rightarrow> checkResourceModel handler_out" where
  "checkImportState ID respState =
     (let parts = SplitN ID CHR ''/'' 3 in
      if length parts < 2
      then \<lparr>wire = None,
            Diagnostics =
              [\<lparr>Summary = ''Invalid import ID'',
                Detail = ''Import ID must be: host_address/type or host_address/type/config''\<rparr>],
            State = respState\<rparr>
      else
        (let s1 = checkSetAttribute ''host_address'' (parts ! 0) respState;
             s2 = checkSetAttribute ''type'' (parts ! 1) s1;
             config = (if length parts = 3 then parts ! 2 else ''{}'');
             s3 = checkSetAttribute ''config'' config s2
         in \<lparr>wire = None, Diagnostics = [], State = s3\<rparr>))"

section \<open>Provider configuration\<close>

record tinymonProviderModel =
  pm_URL :: "string tfvalue"
  pm_APIKey :: "string tfvalue"

record configure_out =
  cfg_Diagnostics :: "diagnostic list"
  DataSourceData :: "TinyMonClient option"
  ResourceData :: "TinyMonClient option"

text \<open>
  \<open>tinymonProvider.Configure\<close> on the decoded configuration (\<open>req.Config.Get\<close>),
  with the process environment (\<open>os.Getenv\<close>, which gives the empty string for an
  unset variable) and the behaviour of the fresh \<open>http.Client\<close> as parameters. Every
  diagnostic the function adds is an error, so \<open>HasError\<close> is the list being
  non-empty.
\<close>

definition Configure ::
  "(string \<Rightarrow> string) \<Rightarrow> (http_request \<Rightarrow> string + http_response) \<Rightarrow> tinymonProviderModel
     \<Rightarrow> configure_out" where
  "Configure Getenv httpClient config =
     (let url = (if \<not> IsNull (pm_URL config) \<and> \<not> IsUnknown (pm_URL config)
                 then ValueString (pm_URL config) else Getenv ''TINYMON_URL'');
          d1 = (if url = []
                then [\<lparr>Summary = ''Missing TinyMon URL'',
                       Detail = ''Set url in the provider configuration or via the TINYMON_URL environment variable.''\<rparr>]
                else []);
          apiKey = (if \<not> IsNull (pm_APIKey config) \<and> \<not> IsUnknown (pm_APIKey config)
                    then ValueString (pm_APIKey config) else Getenv ''TINYMON_API_KEY'');
          d2 = d1 @ (if apiKey = []
                     then [\<lparr>Summary = ''Missing TinyMon API Key'',
                            Detail = ''Set api_key in the provider configuration or via the TINYMON_API_KEY environment variable.''\<rparr>]
                     else [])
      in if d2 \<noteq> []
         then \<lparr>cfg_Diagnostics = d2, DataSourceData = None, ResourceData = None\<rparr>
         else (let client = \<lparr>URL = url, APIKey = apiKey, HTTP = httpClient\<rparr>
               in \<lparr>cfg_Diagnostics = d2, DataSourceData = Some client,
                   ResourceData = Some client\<rparr>))"

section \<open>Resource schemas\<close>

datatype planmodifier = UseStateForUnknown | RequiresReplace

datatype attribute_default = StaticString string | StaticInt64 int | StaticBool bool

datatype attribute_type = Int64Attribute | StringAttribute | BoolAttribute

record attribute =
  AttrType :: attribute_type
  Description :: string
  Required :: bool
  Optional :: bool
  Computed :: bool
  Default :: "attribute_default option"
  PlanModifiers :: "planmodifier list"

text \<open>A field the source leaves out of an attribute literal has Go's zero value.\<close>

definition hostSchema :: "(string \<times> attribute) list" where
  "hostSchema =
     [(''id'', \<lparr>AttrType = Int64Attribute, Description = [], Required = False,
         Optional = False, Computed = True, Default = None,
         PlanModifiers = [UseStateForUnknown]\<rparr>),
      (''address'', \<lparr>AttrType = StringAttribute,
         Description = ''IP address or hostname. Changing this forces a new resource.'',
         Required = True, Optional = False, Computed = False, Default = None,
         PlanModifiers = [RequiresReplace]\<rparr>),
      (''name'', \<lparr>AttrType = StringAttribute,
         Description = ''Display name. Defaults to the address.'',
         Required = False, Optional = True, Computed = True, Default = None,
         PlanModifiers = []\<rparr>),
      (''description'', \<lparr>AttrType = StringAttribute, Description = [],
         Required = False, Optional = True, Computed = True,
         Default = Some (StaticString []), PlanModifiers = []\<rparr>),
      (''topic'', \<lparr>AttrType = StringAttribute, Description = ''Topic path for grouping.'',
         Required = False, Optional = True, Computed = True,
         Default = Some (StaticString []), PlanModifiers = []\<rparr>),
      (''enabled'', \<lparr>AttrType = BoolAttribute, Description = [],
         Required = False, Optional = True, Computed = True,
         Default = Some (StaticBool True), PlanModifiers = []\<rparr>)]"

definition checkSchema :: "(string \<times> attribute) list" where
  "checkSchema =
     [(''id'', \<lparr>AttrType = Int64Attribute, Description = [], Required = False,
         Optional = False, Computed = True, Default = None,
         PlanModifiers = [UseStateForUnknown]\<rparr>),
      (''host_address'', \<lparr>AttrType = StringAttribute,
         Description = ''Address of the host. Changing this forces a new resource.'',
         Required = True, Optional = False, Computed = False, Default = None,
         PlanModifiers = [RequiresReplace]\<rparr>),
      (''type'', \<lparr>AttrType = StringAttribute,
         Description = ''Check type (ping, http, port, certificate, etc.).'',
         Required = True, Optional = False, Computed = False, Default = None,
         PlanModifiers = [RequiresReplace]\<rparr>),
      (''config'', \<lparr>AttrType = StringAttribute, Description = ''JSON config string.'',
         Required = False, Optional = True, Computed = True,
         Default = Some (StaticString ''{}''), PlanModifiers = [RequiresReplace]\<rparr>),
      (''interval_seconds'', \<lparr>AttrType = Int64Attribute,
         Description = ''Check interval in seconds.'',
         Required = False, Optional = True, Computed = True,
         Default = Some (StaticInt64 300), PlanModifiers = []\<rparr>),
      (''enabled'', \<lparr>AttrType = BoolAttribute, Description = [],
         Required = False, Optional = True, Computed = True,
         Default = Some (StaticBool True), PlanModifiers = []\<rparr>)]"

text \<open>
  An attribute forces replacement when the schema has it and its plan modifiers
  include \<open>RequiresReplace\<close>.
\<close>

definition forcesReplacement :: "(string \<times> attribute) list \<Rightarrow> string \<Rightarrow> bool" where
  "forcesReplacement sch name =
     (case map_of sch name of
        None \<Rightarrow> False
      | Some a \<Rightarrow> RequiresReplace \<in> set (PlanModifiers a))"

section \<open>Notions used in the statements\<close>

text \<open>
  The two halves of \<open>DoJSON\<close>, named so that properties can speak about them:
  \<open>buildRequest\<close> is the function up to the point where the request is complete
  (the request, or the error returned before anything is sent), \<open>handleResponse\<close> is
  what the function does with the outcome of \<open>c.HTTP.Do\<close>. Lemma \<open>DoJSON_unfold\<close>
  proves that \<open>DoJSON\<close> is their composition.
\<close>

definition buildRequest ::
  "library \<Rightarrow> TinyMonClient \<Rightarrow> string \<Rightarrow> string \<Rightarrow> api_body option \<Rightarrow> dojson_error + http_request" where
  "buildRequest L c method path body =
     (case (case body of None \<Rightarrow> Inr None
            | Some b \<Rightarrow> (case json_Marshal L b of Inl e \<Rightarrow> Inl e | Inr data \<Rightarrow> Inr (Some data))) of
        Inl e \<Rightarrow> Inl (MarshalError e)
      | Inr reqBody \<Rightarrow>
         (case http_NewRequest L method (TrimRight (URL c) ''/'' @ path) of
            Some e \<Rightarrow> Inl (CreateRequestError e)
          | None \<Rightarrow>
              Inr \<lparr>Method = method, Url = TrimRight (URL c) ''/'' @ path, Body = reqBody,
                    Header =
                      AList.update ''Accept'' ''application/json''
                        (if body \<noteq> None
                         then AList.update ''Content-Type'' ''application/json''
                                (AList.update ''Authorization'' (''Bearer '' @ APIKey c) [])
                         else AList.update ''Authorization'' (''Bearer '' @ APIKey c) [])\<rparr>))"

definition handleResponse ::
  "library \<Rightarrow> string \<Rightarrow> string \<Rightarrow> api_result option \<Rightarrow> http_request \<Rightarrow> string + http_response
     \<Rightarrow> dojson_out" where
  "handleResponse L method path res req r =
     (case r of
        Inl e \<Rightarrow> \<lparr>sent = Some req, err = Some (ExecuteError method path e), result = res\<rparr>
      | Inr resp \<Rightarrow>
         (case RespBody resp of
            Inl e \<Rightarrow> \<lparr>sent = Some req, err = Some (ReadBodyError e), result = res\<rparr>
          | Inr respBody \<Rightarrow>
             if StatusCode resp < 200 \<or> StatusCode resp \<ge> 300
             then \<lparr>sent = Some req,
                   err = Some (APIError method path (StatusCode resp) respBody),
                   result = res\<rparr>
             else (case res of
                     Some r \<Rightarrow>
                       if length respBody > 0
                       then (case json_Unmarshal L respBody r of
                               (Some e, r') \<Rightarrow>
                                 \<lparr>sent = Some req, err = Some (UnmarshalError e),
                                  result = Some r'\<rparr>
                             | (None, r') \<Rightarrow>
                                 \<lparr>sent = Some req, err = None, result = Some r'\<rparr>)
                       else \<lparr>sent = Some req, err = None, result = res\<rparr>
                   | None \<Rightarrow> \<lparr>sent = Some req, err = None, result = res\<rparr>)))"

text \<open>
  \<open>answered c w st b\<close>: the request \<open>w\<close> was sent, and the transport of \<open>c\<close>
  answers it with status code \<open>st\<close> and a body that reads as \<open>b\<close>.
\<close>

definition answered :: "TinyMonClient \<Rightarrow> http_request option \<Rightarrow> int \<Rightarrow> string \<Rightarrow> bool" where
  "answered c w st b =
     (case w of
        None \<Rightarrow> False
      | Some q \<Rightarrow>
         (case HTTP c q of
            Inl e \<Rightarrow> False
          | Inr resp \<Rightarrow> StatusCode resp = st \<and> RespBody resp = Inr b))"

text \<open>
  Concrete inputs: a library whose calls all succeed, one whose \<open>json.Unmarshal\<close>
  always fails, a client whose server answers every request with a given status and
  body, and one host and one check.
\<close>

definition exampleLibrary :: library where
  "exampleLibrary =
     \<lparr>json_Marshal = (\<lambda>b. Inr ''{}''),
      json_Unmarshal_host =
        (\<lambda>data r. (None, r\<lparr>hr_ID := 7, hr_Name := ''Webserver'', hr_Address := ''192.168.1.10'',
                               hr_Enabled := 1\<rparr>)),
      json_Unmarshal_check =
        (\<lambda>data r. (None, r\<lparr>cr_ID := 3, cr_HostID := 7, cr_Type := ''ping'', cr_Config := ''{}'',
                               cr_IntervalSeconds := 300, cr_Enabled := 1\<rparr>)),
      http_NewRequest = (\<lambda>method url. None),
      url_QueryEscape = (\<lambda>s. s)\<rparr>"

definition exampleClient :: "int \<Rightarrow> string \<Rightarrow> TinyMonClient" where
  "exampleClient st b =
     \<lparr>URL = ''https://mon.example.com//'', APIKey = ''secret'',
      HTTP = (\<lambda>q. Inr \<lparr>StatusCode = st, RespBody = Inr b\<rparr>)\<rparr>"

definition exampleHost :: hostResourceModel where
  "exampleHost =
     \<lparr>hm_ID = Known 7, hm_Address = Known ''192.168.1.10'', hm_Name = Known ''Webserver'',
      hm_Description = Known [], hm_Topic = Known [], hm_Enabled = Known True\<rparr>"

definition exampleCheck :: "string \<Rightarrow> checkResourceModel" where
  "exampleCheck addr =
     \<lparr>cm_ID = Known 3, cm_HostAddress = Known addr, cm_Type = Known ''ping'',
      cm_Config = Known ''{}'', cm_IntervalSeconds = Known 300, cm_Enabled = Known True\<rparr>"

definition brokenLibrary :: library where
  "brokenLibrary =
     exampleLibrary
       \<lparr>json_Unmarshal_host := (\<lambda>data r. (Some ''invalid character'', r)),
        json_Unmarshal_check := (\<lambda>data r. (Some ''invalid character'', r))\<rparr>"

text \<open>
  The request an upsert puts on the wire: a \<open>POST\<close> to the path under the base URL,
  carrying the marshalled body and the three headers; none when marshalling or
  \<open>http.NewRequest\<close> fails.
\<close>

definition upsertRequest ::
  "library \<Rightarrow> TinyMonClient \<Rightarrow> string \<Rightarrow> api_body \<Rightarrow> http_request option" where
  "upsertRequest L c path body =
     (case json_Marshal L body of
        Inl e \<Rightarrow> None
      | Inr data \<Rightarrow>
         (case http_NewRequest L ''POST'' (TrimRight (URL c) ''/'' @ path) of
            Some e \<Rightarrow> None
          | None \<Rightarrow>
              Some \<lparr>Method = ''POST'', Url = TrimRight (URL c) ''/'' @ path, Body = Some data,
                    Header = [(''Authorization'', ''Bearer '' @ APIKey c),
                              (''Content-Type'', ''application/json''),
                              (''Accept'', ''application/json'')]\<rparr>))"

text \<open>
  Follows the specification's words, not the code: the resolved value of a setting
  is the explicitly configured value when that is set (neither null nor unknown), and
  the value of the environment variable otherwise.
\<close>

definition resolve :: "string tfvalue \<Rightarrow> string \<Rightarrow> string" where
  "resolve explicit env = (case explicit of Known v \<Rightarrow> v | Null \<Rightarrow> env | Unknown \<Rightarrow> env)"

text \<open>A response body as the service sends it for a check.\<close>

definition exampleBody :: string where
  "exampleBody = ''{\"id\":3,\"host_id\":7,\"type\":\"ping\",\"config\":\"{}\",\"interval_seconds\":300,\"enabled\":1}''"

section \<open>Import\<close>

lemma takeWhile_sep: "sep \<notin> set a \<Longrightarrow> takeWhile (\<lambda>c. c \<noteq> sep) (a @ sep # r) = a"
  by (induction a) auto

lemma dropWhile_sep: "sep \<notin> set a \<Longrightarrow> dropWhile (\<lambda>c. c \<noteq> sep) (a @ sep # r) = sep # r"
  by (induction a) auto

lemma SplitN_3_none: "sep \<notin> set s \<Longrightarrow> SplitN s sep 3 = [s]"
  by (simp add: numeral_3_eq_3)

lemma SplitN_3_one:
  "sep \<notin> set a \<Longrightarrow> sep \<notin> set b \<Longrightarrow> SplitN (a @ sep # b) sep 3 = [a, b]"
  by (simp add: numeral_3_eq_3 takeWhile_sep dropWhile_sep)

lemma SplitN_3_two:
  "sep \<notin> set a \<Longrightarrow> sep \<notin> set b \<Longrightarrow> SplitN (a @ sep # b @ sep # r) sep 3 = [a, b, r]"
  by (simp add: numeral_3_eq_3 takeWhile_sep dropWhile_sep)

text \<open>
  Every identifier has one of the three forms: no slash, one slash, or a first and a
  second slash followed by an arbitrary remainder.
\<close>

lemma import_id_forms:
  "CHR ''/'' \<notin> set ID \<or>
   (\<exists>a b. ID = a @ ''/'' @ b \<and> CHR ''/'' \<notin> set a \<and> CHR ''/'' \<notin> set b) \<or>
   (\<exists>a b rest. ID = a @ ''/'' @ b @ ''/'' @ rest \<and> CHR ''/'' \<notin> set a \<and> CHR ''/'' \<notin> set b)"
proof (cases "CHR ''/'' \<in> set ID")
  case False
  then show ?thesis by simp
next
  case True
  then obtain a t where ID: "ID = a @ CHR ''/'' # t" and a: "CHR ''/'' \<notin> set a"
    by (meson split_list_first)
  show ?thesis
  proof (cases "CHR ''/'' \<in> set t")
    case False
    with ID a show ?thesis by auto
  next
    case True
    then obtain b r where t: "t = b @ CHR ''/'' # r" and b: "CHR ''/'' \<notin> set b"
      by (meson split_list_first)
    from ID t have "ID = a @ ''/'' @ b @ ''/'' @ r" by simp
    with a b show ?thesis by blast
  qed
qed

lemma SplitN_3_segments:
  "1 \<le> length (SplitN ID CHR ''/'' 3) \<and> length (SplitN ID CHR ''/'' 3) \<le> 3 \<and>
   (length (SplitN ID CHR ''/'' 3) < 2 \<longleftrightarrow> CHR ''/'' \<notin> set ID)"
proof -
  consider (none) "CHR ''/'' \<notin> set ID"
    | (one) a b where "ID = a @ ''/'' @ b" "CHR ''/'' \<notin> set a" "CHR ''/'' \<notin> set b"
    | (two) a b rest where "ID = a @ ''/'' @ b @ ''/'' @ rest" "CHR ''/'' \<notin> set a" "CHR ''/'' \<notin> set b"
    using import_id_forms [of ID] by blast
  then show ?thesis
  proof cases
    case none
    then show ?thesis by (simp add: SplitN_3_none)
  next
    case one
    then show ?thesis using SplitN_3_one [of "CHR ''/''" a b] by simp
  next
    case two
    then show ?thesis using SplitN_3_two [of "CHR ''/''" a b rest] by simp
  qed
qed

text \<open>
  Claim C1. Importing a check splits the identifier on its first two slashes only:
  the split gives one, two or three segments, and fewer than two exactly when the
  identifier has no slash.
  An identifier without a slash is refused with the diagnostic \<open>Invalid import ID\<close>
  and the state is left as it was. An identifier \<open>a/b\<close> with no further slash sets
  \<open>host_address\<close> to \<open>a\<close>, \<open>type\<close> to \<open>b\<close> and \<open>config\<close> to the literal \<open>{}\<close>.
  An identifier \<open>a/b/rest\<close> sets \<open>config\<close> to \<open>rest\<close> as it stands, whatever slashes
  \<open>rest\<close> contains. Every identifier has one of the three forms.
\<close>

theorem checkImportState_parsing:
  "1 \<le> length (SplitN ID CHR ''/'' 3) \<and> length (SplitN ID CHR ''/'' 3) \<le> 3 \<and>
   (length (SplitN ID CHR ''/'' 3) < 2 \<longleftrightarrow> CHR ''/'' \<notin> set ID) \<and>
   (CHR ''/'' \<notin> set ID \<longrightarrow>
      checkImportState ID st =
        \<lparr>wire = None,
         Diagnostics = [\<lparr>Summary = ''Invalid import ID'',
            Detail = ''Import ID must be: host_address/type or host_address/type/config''\<rparr>],
         State = st\<rparr>) \<and>
   (CHR ''/'' \<notin> set a \<and> CHR ''/'' \<notin> set b \<longrightarrow>
      checkImportState (a @ ''/'' @ b) st =
        \<lparr>wire = None, Diagnostics = [],
         State = Some ((case st of None \<Rightarrow> nullCheckResourceModel | Some m \<Rightarrow> m)
                   \<lparr>cm_HostAddress := Known a, cm_Type := Known b, cm_Config := Known ''{}''\<rparr>)\<rparr>) \<and>
   (CHR ''/'' \<notin> set a \<and> CHR ''/'' \<notin> set b \<longrightarrow>
      checkImportState (a @ ''/'' @ b @ ''/'' @ rest) st =
        \<lparr>wire = None, Diagnostics = [],
         State = Some ((case st of None \<Rightarrow> nullCheckResourceModel | Some m \<Rightarrow> m)
                   \<lparr>cm_HostAddress := Known a, cm_Type := Known b, cm_Config := Known rest\<rparr>)\<rparr>)"
proof (intro conjI impI)
  show "1 \<le> length (SplitN ID CHR ''/'' 3)"
    using SplitN_3_segments [of ID] by (rule conjunct1)
  show "length (SplitN ID CHR ''/'' 3) \<le> 3"
    using SplitN_3_segments [of ID] by blast
  show "length (SplitN ID CHR ''/'' 3) < 2 \<longleftrightarrow> CHR ''/'' \<notin> set ID"
    using SplitN_3_segments [of ID] by blast
next
  assume "CHR ''/'' \<notin> set ID"
  then show "checkImportState ID st =
        \<lparr>wire = None,
         Diagnostics = [\<lparr>Summary = ''Invalid import ID'',
            Detail = ''Import ID must be: host_address/type or host_address/type/config''\<rparr>],
         State = st\<rparr>"
    by (simp add: checkImportState_def SplitN_3_none)
next
  assume "CHR ''/'' \<notin> set a \<and> CHR ''/'' \<notin> set b"
  then have "SplitN (a @ ''/'' @ b) CHR ''/'' 3 = [a, b]"
    using SplitN_3_one [of "CHR ''/''" a b] by simp
  then show "checkImportState (a @ ''/'' @ b) st =
        \<lparr>wire = None, Diagnostics = [],
         State = Some ((case st of None \<Rightarrow> nullCheckResourceModel | Some m \<Rightarrow> m)
                   \<lparr>cm_HostAddress := Known a, cm_Type := Known b, cm_Config := Known ''{}''\<rparr>)\<rparr>"
    by (simp add: checkImportState_def checkSetAttribute_def)
next
  assume "CHR ''/'' \<notin> set a \<and> CHR ''/'' \<notin> set b"
  then have "SplitN (a @ ''/'' @ b @ ''/'' @ rest) CHR ''/'' 3 = [a, b, rest]"
    using SplitN_3_two [of "CHR ''/''" a b rest] by simp
  then show "checkImportState (a @ ''/'' @ b @ ''/'' @ rest) st =
        \<lparr>wire = None, Diagnostics = [],
         State = Some ((case st of None \<Rightarrow> nullCheckResourceModel | Some m \<Rightarrow> m)
                   \<lparr>cm_HostAddress := Known a, cm_Type := Known b, cm_Config := Known rest\<rparr>)\<rparr>"
    by (simp add: checkImportState_def checkSetAttribute_def)
qed

theorem checkImportState_parsing_witness:
  "CHR ''/'' \<notin> set ''webserver'' \<and>
   checkImportState ''webserver'' None =
     \<lparr>wire = None,
      Diagnostics = [\<lparr>Summary = ''Invalid import ID'',
         Detail = ''Import ID must be: host_address/type or host_address/type/config''\<rparr>],
      State = None\<rparr> \<and>
   CHR ''/'' \<notin> set ''192.168.1.10'' \<and> CHR ''/'' \<notin> set ''disk'' \<and>
   checkImportState ''192.168.1.10/disk'' None =
     \<lparr>wire = None, Diagnostics = [],
      State = Some \<lparr>cm_ID = Null, cm_HostAddress = Known ''192.168.1.10'',
                cm_Type = Known ''disk'', cm_Config = Known ''{}'',
                cm_IntervalSeconds = Null, cm_Enabled = Null\<rparr>\<rparr> \<and>
   checkImportState ''192.168.1.10/disk/{\"mount\":\"/\"}'' None =
     \<lparr>wire = None, Diagnostics = [],
      State = Some \<lparr>cm_ID = Null, cm_HostAddress = Known ''192.168.1.10'',
                cm_Type = Known ''disk'', cm_Config = Known ''{\"mount\":\"/\"}'',
                cm_IntervalSeconds = Null, cm_Enabled = Null\<rparr>\<rparr>"
  using checkImportState_parsing
          [of "''webserver''" None "''192.168.1.10''" "''disk''" "''{\"mount\":\"/\"}''"]
  by (simp add: nullCheckResourceModel_def)

text \<open>
  Claim C8. Importing a host sets the attribute \<open>address\<close> of the state to the
  identifier as it is given, adds no diagnostic, sends no request and changes no other
  attribute: on the null state the others are null, on an existing state they keep
  their values.
\<close>

theorem hostImportState_verbatim:
  "hostImportState ID st =
     \<lparr>wire = None, Diagnostics = [],
      State = Some ((case st of None \<Rightarrow> nullHostResourceModel | Some m \<Rightarrow> m)
                \<lparr>hm_Address := Known ID\<rparr>)\<rparr>"
  by (simp add: hostImportState_def hostSetAttribute_def)

section \<open>The API client: requests and responses\<close>

lemma dropWhile_replicate_same: "dropWhile (\<lambda>c. c = x) (replicate n x @ ys) = dropWhile (\<lambda>c. c = x) ys"
  by (induction n) simp_all

lemma TrimRight_replicate: "TrimRight (u @ replicate n x) [x] = TrimRight u [x]"
  by (simp add: TrimRight_def dropWhile_replicate_same)

lemma TrimRight_snoc_same: "TrimRight (ys @ [x]) [x] = TrimRight ys [x]"
  by (simp add: TrimRight_def)

lemma TrimRight_snoc_other: "y \<noteq> x \<Longrightarrow> TrimRight (ys @ [y]) [x] = ys @ [y]"
  by (simp add: TrimRight_def)

lemma TrimRight_decomp: "\<exists>n. u = TrimRight u [x] @ replicate n x"
proof (induction u rule: rev_induct)
  case Nil
  have "[] = TrimRight [] [x] @ replicate 0 x" by (simp add: TrimRight_def)
  then show ?case by blast
next
  case (snoc y ys)
  show ?case
  proof (cases "y = x")
    case True
    from snoc obtain n where n: "ys = TrimRight ys [x] @ replicate n x" by blast
    have "replicate n x @ [x] = replicate (Suc n) x"
      by (simp add: replicate_append_same)
    then have "ys @ [x] = TrimRight ys [x] @ replicate (Suc n) x"
      using n by (metis append_assoc)
    moreover have "TrimRight (ys @ [y]) [x] = TrimRight ys [x]"
      using True by (simp only: TrimRight_snoc_same)
    ultimately have "ys @ [y] = TrimRight (ys @ [y]) [x] @ replicate (Suc n) x"
      using True by (simp only:)
    then show ?thesis by blast
  next
    case False
    then have "ys @ [y] = TrimRight (ys @ [y]) [x] @ replicate 0 x"
      by (simp add: TrimRight_snoc_other)
    then show ?thesis by blast
  qed
qed

lemma TrimRight_last: "TrimRight u [x] = [] \<or> last (TrimRight u [x]) \<noteq> x"
proof (induction u rule: rev_induct)
  case Nil
  then show ?case by (simp add: TrimRight_def)
next
  case (snoc y ys)
  show ?case
  proof (cases "y = x")
    case True
    with snoc show ?thesis by (simp only: TrimRight_snoc_same)
  next
    case False
    then show ?thesis by (simp add: TrimRight_snoc_other)
  qed
qed

lemma DoJSON_unfold:
  "DoJSON L c method path body res =
     (case buildRequest L c method path body of
        Inl e \<Rightarrow> \<lparr>sent = None, err = Some e, result = res\<rparr>
      | Inr req \<Rightarrow> handleResponse L method path res req (HTTP c req))"
proof -
  let ?m = "(case body of None \<Rightarrow> Inr None
      | Some b \<Rightarrow> (case json_Marshal L b of Inl e \<Rightarrow> Inl e | Inr data \<Rightarrow> Inr (Some data)))"
  show ?thesis
  proof (cases ?m)
    case (Inl e)
    then show ?thesis
      unfolding DoJSON_def buildRequest_def Let_def by (simp only: sum.case)
  next
    case (Inr reqBody)
    show ?thesis
    proof (cases "http_NewRequest L method (TrimRight (URL c) ''/'' @ path)")
      case None
      with Inr show ?thesis
        unfolding DoJSON_def buildRequest_def handleResponse_def Let_def
        by (simp only: sum.case option.case)
    next
      case (Some e)
      with Inr show ?thesis
        unfolding DoJSON_def buildRequest_def Let_def by (simp only: sum.case option.case)
    qed
  qed
qed

lemma sent_handleResponse: "sent (handleResponse L method path res req r) = Some req"
  by (simp add: handleResponse_def split: sum.split option.split prod.split)

lemma DoJSON_sent:
  "sent (DoJSON L c method path body res) =
     (case buildRequest L c method path body of Inl e \<Rightarrow> None | Inr req \<Rightarrow> Some req)"
  by (simp add: DoJSON_unfold sent_handleResponse split: sum.split)

lemma DoJSON_sent_Some:
  "sent (DoJSON L c method path body res) = Some q \<Longrightarrow>
     DoJSON L c method path body res = handleResponse L method path res q (HTTP c q)"
  by (simp add: DoJSON_unfold sent_handleResponse split: sum.splits)

lemma buildRequest_Url:
  "buildRequest L c method path body = Inr q \<Longrightarrow>
     Url q = TrimRight (URL c) ''/'' @ path \<and> Method q = method"
  unfolding buildRequest_def by (auto split: sum.splits option.splits)

lemma buildRequest_URL_cong:
  "TrimRight u ''/'' = TrimRight (URL c) ''/'' \<Longrightarrow>
   buildRequest L (c\<lparr>URL := u\<rparr>) method path body = buildRequest L c method path body"
  unfolding buildRequest_def
  by (simp cong del: sum.case_cong_weak option.case_cong_weak cong: sum.case_cong option.case_cong)

lemma handleResponse_Response:
  "RespBody resp = Inr b \<Longrightarrow>
   handleResponse L method path res q (Inr resp) =
     (if StatusCode resp < 200 \<or> 300 \<le> StatusCode resp
      then \<lparr>sent = Some q, err = Some (APIError method path (StatusCode resp) b), result = res\<rparr>
      else if res = None \<or> b = []
      then \<lparr>sent = Some q, err = None, result = res\<rparr>
      else \<lparr>sent = Some q,
            err = map_option UnmarshalError (fst (json_Unmarshal L b (the res))),
            result = Some (snd (json_Unmarshal L b (the res)))\<rparr>)"
  by (simp add: handleResponse_def split: option.split prod.split)

lemma handleResponse_UnmarshalError:
  "err (handleResponse L method path res q r) = Some (UnmarshalError e) \<Longrightarrow>
     res \<noteq> None \<and>
     (\<exists>resp b. r = Inr resp \<and> RespBody resp = Inr b \<and> 200 \<le> StatusCode resp \<and>
        StatusCode resp < 300 \<and> b \<noteq> [])"
  unfolding handleResponse_def
  by (cases r; cases "RespBody (projr r)"; cases res)
     (auto split: if_splits prod.splits option.splits)

lemma DoJSON_answered:
  assumes "answered c (sent (DoJSON L c method path body res)) st b"
  shows "DoJSON L c method path body res =
     (if st < 200 \<or> 300 \<le> st
      then \<lparr>sent = sent (DoJSON L c method path body res),
            err = Some (APIError method path st b), result = res\<rparr>
      else if res = None \<or> b = []
      then \<lparr>sent = sent (DoJSON L c method path body res), err = None, result = res\<rparr>
      else \<lparr>sent = sent (DoJSON L c method path body res),
            err = map_option UnmarshalError (fst (json_Unmarshal L b (the res))),
            result = Some (snd (json_Unmarshal L b (the res)))\<rparr>)"
proof -
  from assms obtain q resp where q: "sent (DoJSON L c method path body res) = Some q"
    and r: "HTTP c q = Inr resp" and st: "StatusCode resp = st" and b: "RespBody resp = Inr b"
    by (auto simp: answered_def split: option.splits sum.splits)
  have "DoJSON L c method path body res = handleResponse L method path res q (Inr resp)"
    using DoJSON_sent_Some [OF q] r by simp
  then show ?thesis
    using handleResponse_Response [OF b, of L "method" "path" res q] st q by simp
qed

lemma buildRequest_no_UnmarshalError:
  "buildRequest L c method path body \<noteq> Inl (UnmarshalError e)"
  unfolding buildRequest_def by (simp split: sum.split option.split)

lemma DoJSON_UnmarshalError:
  assumes "err (DoJSON L c method path body res) = Some (UnmarshalError e)"
  shows "res \<noteq> None \<and>
     (\<exists>st b. answered c (sent (DoJSON L c method path body res)) st b \<and> 200 \<le> st \<and> st < 300 \<and>
        b \<noteq> [])"
proof (cases "buildRequest L c method path body")
  case (Inl e')
  with assms have "buildRequest L c method path body = Inl (UnmarshalError e)"
    by (simp add: DoJSON_unfold)
  then show ?thesis by (simp add: buildRequest_no_UnmarshalError)
next
  case (Inr q)
  then have d: "DoJSON L c method path body res = handleResponse L method path res q (HTTP c q)"
    by (simp add: DoJSON_unfold)
  with assms have "err (handleResponse L method path res q (HTTP c q)) = Some (UnmarshalError e)"
    by simp
  from handleResponse_UnmarshalError [OF this] d show ?thesis
    by (auto simp: answered_def sent_handleResponse)
qed

lemma DoJSON_Unmarshal_irrelevant:
  assumes "answered c (sent (DoJSON L c method path body res)) st b"
    and "200 \<le> st" and "st < 300" and "b = [] \<or> res = None"
  shows "DoJSON (L\<lparr>json_Unmarshal_host := f, json_Unmarshal_check := g\<rparr>) c method path body res =
     DoJSON L c method path body res"
proof -
  let ?L = "L\<lparr>json_Unmarshal_host := f, json_Unmarshal_check := g\<rparr>"
  have br: "buildRequest ?L c method path body = buildRequest L c method path body"
    unfolding buildRequest_def
    by (simp cong del: sum.case_cong_weak option.case_cong_weak
          cong: sum.case_cong option.case_cong)
  then have "sent (DoJSON ?L c method path body res) = sent (DoJSON L c method path body res)"
    by (simp add: DoJSON_sent)
  with assms(1) have a: "answered c (sent (DoJSON ?L c method path body res)) st b" by simp
  show ?thesis
    using DoJSON_answered [OF a] DoJSON_answered [OF assms(1)] assms(2-4)
      \<open>sent (DoJSON ?L c method path body res) = sent (DoJSON L c method path body res)\<close>
    by auto
qed

lemma wire_hostCreate:
  "wire (hostCreate L c plan s) =
     sent (DoJSON L c ''POST'' ''/api/push/hosts'' (Some (HostRequest (hostCreateBody plan)))
             (Some (HostResult zeroHostAPIResponse)))"
  by (simp add: hostCreate_def Let_def split: option.split)

lemma wire_hostUpdate:
  "wire (hostUpdate L c plan s) =
     sent (DoJSON L c ''POST'' ''/api/push/hosts'' (Some (HostRequest (hostUpdateBody plan)))
             (Some (HostResult zeroHostAPIResponse)))"
  by (simp add: hostUpdate_def Let_def split: option.split)

lemma wire_hostRead:
  "wire (hostRead L c state s) =
     sent (DoJSON L c ''GET''
             (''/api/push/hosts?address='' @ url_QueryEscape L (ValueString (hm_Address state)))
             None (Some (HostResult zeroHostAPIResponse)))"
  by (simp add: hostRead_def Let_def split: option.split)

lemma wire_hostDelete:
  "wire (hostDelete L c state s) =
     sent (DoJSON L c ''DELETE'' ''/api/push/hosts''
             (Some (HostDelete \<lparr>hd_Address = ValueString (hm_Address state)\<rparr>)) None)"
  by (simp add: hostDelete_def Let_def split: option.split)

lemma wire_checkCreate:
  "wire (checkCreate L c plan s) =
     sent (DoJSON L c ''POST'' ''/api/push/checks'' (Some (CheckRequest (checkCreateBody plan)))
             (Some (CheckResult zeroCheckAPIResponse)))"
  by (simp add: checkCreate_def Let_def split: option.split)

lemma wire_checkUpdate:
  "wire (checkUpdate L c plan s) =
     sent (DoJSON L c ''POST'' ''/api/push/checks'' (Some (CheckRequest (checkUpdateBody plan)))
             (Some (CheckResult zeroCheckAPIResponse)))"
  by (simp add: checkUpdate_def Let_def split: option.split)

lemma wire_checkRead:
  "wire (checkRead L c state s) =
     sent (DoJSON L c ''GET''
             (''/api/push/checks?host_address=''
                @ url_QueryEscape L (ValueString (cm_HostAddress state))
                @ ''&type='' @ url_QueryEscape L (ValueString (cm_Type state))
                @ ''&config='' @ url_QueryEscape L (ValueString (cm_Config state)))
             None (Some (CheckResult zeroCheckAPIResponse)))"
  by (simp add: checkRead_def Let_def split: option.split)

lemma wire_checkDelete:
  "wire (checkDelete L c state s) =
     sent (DoJSON L c ''DELETE'' ''/api/push/checks''
             (Some (CheckDelete \<lparr>cd_HostAddress = ValueString (cm_HostAddress state),
                                 cd_Type = ValueString (cm_Type state),
                                 cd_Config = ValueString (cm_Config state)\<rparr>)) None)"
  by (simp add: checkDelete_def Let_def split: option.split)

lemma DoJSON_rejected:
  assumes "st < 200 \<or> 300 \<le> st"
    and "answered c (sent (DoJSON L c method path body res)) st b"
  shows "err (DoJSON L c method path body res) = Some (APIError method path st b)"
    and "result (DoJSON L c method path body res) = res"
  using DoJSON_answered [OF assms(2)] assms(1) by (metis dojson_out.select_convs(2), metis dojson_out.select_convs(3))

lemma hostCreate_rejected:
  assumes "st < 200 \<or> 300 \<le> st" and "answered c (wire (hostCreate L c hp hs)) st b"
  shows "hostCreate L c hp hs =
     \<lparr>wire = wire (hostCreate L c hp hs),
      Diagnostics = [\<lparr>Summary = ''Error creating host'',
         Detail = Error (APIError ''POST'' ''/api/push/hosts'' st b)\<rparr>],
      State = hs\<rparr>"
proof -
  note a = assms(2) [unfolded wire_hostCreate]
  show ?thesis
    unfolding wire_hostCreate
    by (simp add: hostCreate_def Let_def DoJSON_rejected [OF assms(1) a, simplified] del: Error.simps)
qed

lemma hostRead_rejected:
  assumes "st < 200 \<or> 300 \<le> st" and "answered c (wire (hostRead L c hp hs)) st b"
  shows "hostRead L c hp hs =
     \<lparr>wire = wire (hostRead L c hp hs),
      Diagnostics = [\<lparr>Summary = ''Error reading host'',
         Detail = Error (APIError ''GET'' (''/api/push/hosts?address='' @ url_QueryEscape L (ValueString (hm_Address hp))) st b)\<rparr>],
      State = hs\<rparr>"
proof -
  note a = assms(2) [unfolded wire_hostRead]
  show ?thesis
    unfolding wire_hostRead
    by (simp add: hostRead_def Let_def DoJSON_rejected [OF assms(1) a, simplified] del: Error.simps)
qed

lemma hostUpdate_rejected:
  assumes "st < 200 \<or> 300 \<le> st" and "answered c (wire (hostUpdate L c hp hs)) st b"
  shows "hostUpdate L c hp hs =
     \<lparr>wire = wire (hostUpdate L c hp hs),
      Diagnostics = [\<lparr>Summary = ''Error updating host'',
         Detail = Error (APIError ''POST'' ''/api/push/hosts'' st b)\<rparr>],
      State = hs\<rparr>"
proof -
  note a = assms(2) [unfolded wire_hostUpdate]
  show ?thesis
    unfolding wire_hostUpdate
    by (simp add: hostUpdate_def Let_def DoJSON_rejected [OF assms(1) a, simplified] del: Error.simps)
qed

lemma hostDelete_rejected:
  assumes "st < 200 \<or> 300 \<le> st" and "answered c (wire (hostDelete L c hp hs)) st b"
  shows "hostDelete L c hp hs =
     \<lparr>wire = wire (hostDelete L c hp hs),
      Diagnostics = [\<lparr>Summary = ''Error deleting host'',
         Detail = Error (APIError ''DELETE'' ''/api/push/hosts'' st b)\<rparr>],
      State = hs\<rparr>"
proof -
  note a = assms(2) [unfolded wire_hostDelete]
  show ?thesis
    unfolding wire_hostDelete
    by (simp add: hostDelete_def Let_def DoJSON_rejected [OF assms(1) a, simplified] del: Error.simps)
qed

lemma checkCreate_rejected:
  assumes "st < 200 \<or> 300 \<le> st" and "answered c (wire (checkCreate L c cp cs)) st b"
  shows "checkCreate L c cp cs =
     \<lparr>wire = wire (checkCreate L c cp cs),
      Diagnostics = [\<lparr>Summary = ''Error creating check'',
         Detail = Error (APIError ''POST'' ''/api/push/checks'' st b)\<rparr>],
      State = cs\<rparr>"
proof -
  note a = assms(2) [unfolded wire_checkCreate]
  show ?thesis
    unfolding wire_checkCreate
    by (simp add: checkCreate_def Let_def DoJSON_rejected [OF assms(1) a, simplified] del: Error.simps)
qed

lemma checkRead_rejected:
  assumes "st < 200 \<or> 300 \<le> st" and "answered c (wire (checkRead L c cp cs)) st b"
  shows "checkRead L c cp cs =
     \<lparr>wire = wire (checkRead L c cp cs),
      Diagnostics = [\<lparr>Summary = ''Error reading check'',
         Detail = Error (APIError ''GET'' (''/api/push/checks?host_address=''
                @ url_QueryEscape L (ValueString (cm_HostAddress cp))
                @ ''&type='' @ url_QueryEscape L (ValueString (cm_Type cp))
                @ ''&config='' @ url_QueryEscape L (ValueString (cm_Config cp))) st b)\<rparr>],
      State = cs\<rparr>"
proof -
  note a = assms(2) [unfolded wire_checkRead]
  show ?thesis
    unfolding wire_checkRead
    by (simp add: checkRead_def Let_def DoJSON_rejected [OF assms(1) a, simplified] del: Error.simps)
qed

lemma checkUpdate_rejected:
  assumes "st < 200 \<or> 300 \<le> st" and "answered c (wire (checkUpdate L c cp cs)) st b"
  shows "checkUpdate L c cp cs =
     \<lparr>wire = wire (checkUpdate L c cp cs),
      Diagnostics = [\<lparr>Summary = ''Error updating check'',
         Detail = Error (APIError ''POST'' ''/api/push/checks'' st b)\<rparr>],
      State = cs\<rparr>"
proof -
  note a = assms(2) [unfolded wire_checkUpdate]
  show ?thesis
    unfolding wire_checkUpdate
    by (simp add: checkUpdate_def Let_def DoJSON_rejected [OF assms(1) a, simplified] del: Error.simps)
qed

lemma checkDelete_rejected:
  assumes "st < 200 \<or> 300 \<le> st" and "answered c (wire (checkDelete L c cp cs)) st b"
  shows "checkDelete L c cp cs =
     \<lparr>wire = wire (checkDelete L c cp cs),
      Diagnostics = [\<lparr>Summary = ''Error deleting check'',
         Detail = Error (APIError ''DELETE'' ''/api/push/checks'' st b)\<rparr>],
      State = cs\<rparr>"
proof -
  note a = assms(2) [unfolded wire_checkDelete]
  show ?thesis
    unfolding wire_checkDelete
    by (simp add: checkDelete_def Let_def DoJSON_rejected [OF assms(1) a, simplified] del: Error.simps)
qed

text \<open>
  Claim C2. Let a call be answered with a status code outside \<open>[200, 300)\<close> and
  a body \<open>b\<close>. Then \<open>DoJSON\<close> returns the error whose text is
  \<open>API <method> <path> returned status <code>: <b>\<close>, with the status in decimal and
  the body unchanged, and leaves the result destination as it was. Each of the eight
  handlers (create, read, update and delete of a host and of a check) then reports
  exactly that error as its one diagnostic and returns the response state it was
  given: it writes no new state.
\<close>

theorem non2xx_keeps_state:
  assumes "st < 200 \<or> 300 \<le> st"
  shows
    "(answered c (sent (DoJSON L c method path body res)) st b \<longrightarrow>
        err (DoJSON L c method path body res) = Some (APIError method path st b) \<and>
        result (DoJSON L c method path body res) = res) \<and>
     Error (APIError method path st b) =
       ''API '' @ method @ '' '' @ path @ '' returned status '' @ Itoa st @ '': '' @ b \<and>
     (answered c (wire (hostCreate L c hp hs)) st b \<longrightarrow>
        Diagnostics (hostCreate L c hp hs) =
          [\<lparr>Summary = ''Error creating host'',
            Detail = Error (APIError ''POST'' ''/api/push/hosts'' st b)\<rparr>] \<and>
        State (hostCreate L c hp hs) = hs) \<and>
     (answered c (wire (hostRead L c hp hs)) st b \<longrightarrow>
        Diagnostics (hostRead L c hp hs) =
          [\<lparr>Summary = ''Error reading host'',
            Detail = Error (APIError ''GET'' (''/api/push/hosts?address='' @ url_QueryEscape L (ValueString (hm_Address hp))) st b)\<rparr>] \<and>
        State (hostRead L c hp hs) = hs) \<and>
     (answered c (wire (hostUpdate L c hp hs)) st b \<longrightarrow>
        Diagnostics (hostUpdate L c hp hs) =
          [\<lparr>Summary = ''Error updating host'',
            Detail = Error (APIError ''POST'' ''/api/push/hosts'' st b)\<rparr>] \<and>
        State (hostUpdate L c hp hs) = hs) \<and>
     (answered c (wire (hostDelete L c hp hs)) st b \<longrightarrow>
        Diagnostics (hostDelete L c hp hs) =
          [\<lparr>Summary = ''Error deleting host'',
            Detail = Error (APIError ''DELETE'' ''/api/push/hosts'' st b)\<rparr>] \<and>
        State (hostDelete L c hp hs) = hs) \<and>
     (answered c (wire (checkCreate L c cp cs)) st b \<longrightarrow>
        Diagnostics (checkCreate L c cp cs) =
          [\<lparr>Summary = ''Error creating check'',
            Detail = Error (APIError ''POST'' ''/api/push/checks'' st b)\<rparr>] \<and>
        State (checkCreate L c cp cs) = cs) \<and>
     (answered c (wire (checkRead L c cp cs)) st b \<longrightarrow>
        Diagnostics (checkRead L c cp cs) =
          [\<lparr>Summary = ''Error reading check'',
            Detail = Error (APIError ''GET'' (''/api/push/checks?host_address=''
                @ url_QueryEscape L (ValueString (cm_HostAddress cp))
                @ ''&type='' @ url_QueryEscape L (ValueString (cm_Type cp))
                @ ''&config='' @ url_QueryEscape L (ValueString (cm_Config cp))) st b)\<rparr>] \<and>
        State (checkRead L c cp cs) = cs) \<and>
     (answered c (wire (checkUpdate L c cp cs)) st b \<longrightarrow>
        Diagnostics (checkUpdate L c cp cs) =
          [\<lparr>Summary = ''Error updating check'',
            Detail = Error (APIError ''POST'' ''/api/push/checks'' st b)\<rparr>] \<and>
        State (checkUpdate L c cp cs) = cs) \<and>
     (answered c (wire (checkDelete L c cp cs)) st b \<longrightarrow>
        Diagnostics (checkDelete L c cp cs) =
          [\<lparr>Summary = ''Error deleting check'',
            Detail = Error (APIError ''DELETE'' ''/api/push/checks'' st b)\<rparr>] \<and>
        State (checkDelete L c cp cs) = cs)"
proof -
  have d: "answered c (sent (DoJSON L c method path body res)) st b \<longrightarrow>
        err (DoJSON L c method path body res) = Some (APIError method path st b) \<and>
        result (DoJSON L c method path body res) = res"
    using DoJSON_rejected [OF assms] by blast
  have e: "Error (APIError method path st b) =
       ''API '' @ method @ '' '' @ path @ '' returned status '' @ Itoa st @ '': '' @ b"
    by simp
  have h0: "answered c (wire (hostCreate L c hp hs)) st b \<longrightarrow>
        Diagnostics (hostCreate L c hp hs) =
          [\<lparr>Summary = ''Error creating host'',
            Detail = Error (APIError ''POST'' ''/api/push/hosts'' st b)\<rparr>] \<and>
        State (hostCreate L c hp hs) = hs"
  proof
    assume a: "answered c (wire (hostCreate L c hp hs)) st b"
    show "Diagnostics (hostCreate L c hp hs) =
          [\<lparr>Summary = ''Error creating host'',
            Detail = Error (APIError ''POST'' ''/api/push/hosts'' st b)\<rparr>] \<and>
        State (hostCreate L c hp hs) = hs"
      by (subst hostCreate_rejected [OF assms a], subst (2) hostCreate_rejected [OF assms a])
         (simp del: Error.simps)
  qed
  have h1: "answered c (wire (hostRead L c hp hs)) st b \<longrightarrow>
        Diagnostics (hostRead L c hp hs) =
          [\<lparr>Summary = ''Error reading host'',
            Detail = Error (APIError ''GET'' (''/api/push/hosts?address='' @ url_QueryEscape L (ValueString (hm_Address hp))) st b)\<rparr>] \<and>
        State (hostRead L c hp hs) = hs"
  proof
    assume a: "answered c (wire (hostRead L c hp hs)) st b"
    show "Diagnostics (hostRead L c hp hs) =
          [\<lparr>Summary = ''Error reading host'',
            Detail = Error (APIError ''GET'' (''/api/push/hosts?address='' @ url_QueryEscape L (ValueString (hm_Address hp))) st b)\<rparr>] \<and>
        State (hostRead L c hp hs) = hs"
      by (subst hostRead_rejected [OF assms a], subst (2) hostRead_rejected [OF assms a])
         (simp del: Error.simps)
  qed
  have h2: "answered c (wire (hostUpdate L c hp hs)) st b \<longrightarrow>
        Diagnostics (hostUpdate L c hp hs) =
          [\<lparr>Summary = ''Error updating host'',
            Detail = Error (APIError ''POST'' ''/api/push/hosts'' st b)\<rparr>] \<and>
        State (hostUpdate L c hp hs) = hs"
  proof
    assume a: "answered c (wire (hostUpdate L c hp hs)) st b"
    show "Diagnostics (hostUpdate L c hp hs) =
          [\<lparr>Summary = ''Error updating host'',
            Detail = Error (APIError ''POST'' ''/api/push/hosts'' st b)\<rparr>] \<and>
        State (hostUpdate L c hp hs) = hs"
      by (subst hostUpdate_rejected [OF assms a], subst (2) hostUpdate_rejected [OF assms a])
         (simp del: Error.simps)
  qed
  have h3: "answered c (wire (hostDelete L c hp hs)) st b \<longrightarrow>
        Diagnostics (hostDelete L c hp hs) =
          [\<lparr>Summary = ''Error deleting host'',
            Detail = Error (APIError ''DELETE'' ''/api/push/hosts'' st b)\<rparr>] \<and>
        State (hostDelete L c hp hs) = hs"
  proof
    assume a: "answered c (wire (hostDelete L c hp hs)) st b"
    show "Diagnostics (hostDelete L c hp hs) =
          [\<lparr>Summary = ''Error deleting host'',
            Detail = Error (APIError ''DELETE'' ''/api/push/hosts'' st b)\<rparr>] \<and>
        State (hostDelete L c hp hs) = hs"
      by (subst hostDelete_rejected [OF assms a], subst (2) hostDelete_rejected [OF assms a])
         (simp del: Error.simps)
  qed
  have h4: "answered c (wire (checkCreate L c cp cs)) st b \<longrightarrow>
        Diagnostics (checkCreate L c cp cs) =
          [\<lparr>Summary = ''Error creating check'',
            Detail = Error (APIError ''POST'' ''/api/push/checks'' st b)\<rparr>] \<and>
        State (checkCreate L c cp cs) = cs"
  proof
    assume a: "answered c (wire (checkCreate L c cp cs)) st b"
    show "Diagnostics (checkCreate L c cp cs) =
          [\<lparr>Summary = ''Error creating check'',
            Detail = Error (APIError ''POST'' ''/api/push/checks'' st b)\<rparr>] \<and>
        State (checkCreate L c cp cs) = cs"
      by (subst checkCreate_rejected [OF assms a], subst (2) checkCreate_rejected [OF assms a])
         (simp del: Error.simps)
  qed
  have h5: "answered c (wire (checkRead L c cp cs)) st b \<longrightarrow>
        Diagnostics (checkRead L c cp cs) =
          [\<lparr>Summary = ''Error reading check'',
            Detail = Error (APIError ''GET'' (''/api/push/checks?host_address=''
                @ url_QueryEscape L (ValueString (cm_HostAddress cp))
                @ ''&type='' @ url_QueryEscape L (ValueString (cm_Type cp))
                @ ''&config='' @ url_QueryEscape L (ValueString (cm_Config cp))) st b)\<rparr>] \<and>
        State (checkRead L c cp cs) = cs"
  proof
    assume a: "answered c (wire (checkRead L c cp cs)) st b"
    show "Diagnostics (checkRead L c cp cs) =
          [\<lparr>Summary = ''Error reading check'',
            Detail = Error (APIError ''GET'' (''/api/push/checks?host_address=''
                @ url_QueryEscape L (ValueString (cm_HostAddress cp))
                @ ''&type='' @ url_QueryEscape L (ValueString (cm_Type cp))
                @ ''&config='' @ url_QueryEscape L (ValueString (cm_Config cp))) st b)\<rparr>] \<and>
        State (checkRead L c cp cs) = cs"
      by (subst checkRead_rejected [OF assms a], subst (2) checkRead_rejected [OF assms a])
         (simp del: Error.simps)
  qed
  have h6: "answered c (wire (checkUpdate L c cp cs)) st b \<longrightarrow>
        Diagnostics (checkUpdate L c cp cs) =
          [\<lparr>Summary = ''Error updating check'',
            Detail = Error (APIError ''POST'' ''/api/push/checks'' st b)\<rparr>] \<and>
        State (checkUpdate L c cp cs) = cs"
  proof
    assume a: "answered c (wire (checkUpdate L c cp cs)) st b"
    show "Diagnostics (checkUpdate L c cp cs) =
          [\<lparr>Summary = ''Error updating check'',
            Detail = Error (APIError ''POST'' ''/api/push/checks'' st b)\<rparr>] \<and>
        State (checkUpdate L c cp cs) = cs"
      by (subst checkUpdate_rejected [OF assms a], subst (2) checkUpdate_rejected [OF assms a])
         (simp del: Error.simps)
  qed
  have h7: "answered c (wire (checkDelete L c cp cs)) st b \<longrightarrow>
        Diagnostics (checkDelete L c cp cs) =
          [\<lparr>Summary = ''Error deleting check'',
            Detail = Error (APIError ''DELETE'' ''/api/push/checks'' st b)\<rparr>] \<and>
        State (checkDelete L c cp cs) = cs"
  proof
    assume a: "answered c (wire (checkDelete L c cp cs)) st b"
    show "Diagnostics (checkDelete L c cp cs) =
          [\<lparr>Summary = ''Error deleting check'',
            Detail = Error (APIError ''DELETE'' ''/api/push/checks'' st b)\<rparr>] \<and>
        State (checkDelete L c cp cs) = cs"
      by (subst checkDelete_rejected [OF assms a], subst (2) checkDelete_rejected [OF assms a])
         (simp del: Error.simps)
  qed
  from d e h0 h1 h2 h3 h4 h5 h6 h7 show ?thesis by (intro conjI)
qed

lemma Itoa_404: "Itoa 404 = ''404''"
  by code_simp

lemma ex_answered:
  "sent d = Some q \<Longrightarrow> answered (exampleClient st b) (sent d) st b"
  by (simp add: answered_def exampleClient_def)

lemma ex_sent:
  "\<exists>q. sent (DoJSON exampleLibrary (exampleClient st b) method path body res) = Some q"
  by (simp add: DoJSON_sent buildRequest_def exampleLibrary_def split: option.split)

lemma ex_all_answered:
  "answered (exampleClient st b)
     (sent (DoJSON exampleLibrary (exampleClient st b) method path body res)) st b"
  using ex_sent ex_answered by blast

lemma broken_sent:
  "\<exists>q. sent (DoJSON brokenLibrary (exampleClient st b) method path body res) = Some q"
  by (simp add: DoJSON_sent buildRequest_def exampleLibrary_def brokenLibrary_def split: option.split)

lemma broken_all_answered:
  "answered (exampleClient st b)
     (sent (DoJSON brokenLibrary (exampleClient st b) method path body res)) st b"
  using broken_sent ex_answered by blast

theorem non2xx_keeps_state_witness:
  "((404::int) < 200 \<or> 300 \<le> (404::int)) \<and>
   answered (exampleClient 404 ''not found'')
     (sent (DoJSON exampleLibrary (exampleClient 404 ''not found'') ''GET'' ''/api/push/hosts'' None None))
     404 ''not found'' \<and>
   answered (exampleClient 404 ''not found'')
     (wire (hostCreate exampleLibrary (exampleClient 404 ''not found'') exampleHost None))
     404 ''not found'' \<and>
   answered (exampleClient 404 ''not found'')
     (wire (hostRead exampleLibrary (exampleClient 404 ''not found'') exampleHost (Some exampleHost)))
     404 ''not found'' \<and>
   answered (exampleClient 404 ''not found'')
     (wire (hostUpdate exampleLibrary (exampleClient 404 ''not found'') exampleHost (Some exampleHost)))
     404 ''not found'' \<and>
   answered (exampleClient 404 ''not found'')
     (wire (hostDelete exampleLibrary (exampleClient 404 ''not found'') exampleHost (Some exampleHost)))
     404 ''not found'' \<and>
   answered (exampleClient 404 ''not found'')
     (wire (checkCreate exampleLibrary (exampleClient 404 ''not found'') (exampleCheck ''192.168.1.10'') None))
     404 ''not found'' \<and>
   answered (exampleClient 404 ''not found'')
     (wire (checkRead exampleLibrary (exampleClient 404 ''not found'') (exampleCheck ''192.168.1.10'')
        (Some (exampleCheck ''192.168.1.10''))))
     404 ''not found'' \<and>
   answered (exampleClient 404 ''not found'')
     (wire (checkUpdate exampleLibrary (exampleClient 404 ''not found'') (exampleCheck ''192.168.1.10'')
        (Some (exampleCheck ''192.168.1.10''))))
     404 ''not found'' \<and>
   answered (exampleClient 404 ''not found'')
     (wire (checkDelete exampleLibrary (exampleClient 404 ''not found'') (exampleCheck ''192.168.1.10'')
        (Some (exampleCheck ''192.168.1.10''))))
     404 ''not found'' \<and>
   Diagnostics (hostRead exampleLibrary (exampleClient 404 ''not found'') exampleHost (Some exampleHost)) =
     [\<lparr>Summary = ''Error reading host'',
       Detail = ''API GET /api/push/hosts?address=192.168.1.10 returned status 404: not found''\<rparr>] \<and>
   State (hostRead exampleLibrary (exampleClient 404 ''not found'') exampleHost (Some exampleHost)) =
     Some exampleHost \<and>
   Diagnostics (checkCreate exampleLibrary (exampleClient 404 ''not found'') (exampleCheck ''192.168.1.10'') None) =
     [\<lparr>Summary = ''Error creating check'',
       Detail = ''API POST /api/push/checks returned status 404: not found''\<rparr>] \<and>
   State (checkCreate exampleLibrary (exampleClient 404 ''not found'') (exampleCheck ''192.168.1.10'') None) =
     None"
proof -
  let ?c = "exampleClient 404 ''not found''"
  let ?k = "exampleCheck ''192.168.1.10''"
  have s: "(404::int) < 200 \<or> 300 \<le> (404::int)" by simp
  have a0: "answered ?c (sent (DoJSON exampleLibrary ?c ''GET'' ''/api/push/hosts'' None None))
     404 ''not found''"
    by (rule ex_all_answered)
  have a1: "answered ?c (wire (hostCreate exampleLibrary ?c exampleHost None)) 404 ''not found''"
    unfolding wire_hostCreate by (rule ex_all_answered)
  have a2: "answered ?c (wire (hostRead exampleLibrary ?c exampleHost (Some exampleHost))) 404 ''not found''"
    unfolding wire_hostRead by (rule ex_all_answered)
  have a3: "answered ?c (wire (hostUpdate exampleLibrary ?c exampleHost (Some exampleHost))) 404 ''not found''"
    unfolding wire_hostUpdate by (rule ex_all_answered)
  have a4: "answered ?c (wire (hostDelete exampleLibrary ?c exampleHost (Some exampleHost))) 404 ''not found''"
    unfolding wire_hostDelete by (rule ex_all_answered)
  have a5: "answered ?c (wire (checkCreate exampleLibrary ?c ?k None)) 404 ''not found''"
    unfolding wire_checkCreate by (rule ex_all_answered)
  have a6: "answered ?c (wire (checkRead exampleLibrary ?c ?k (Some ?k))) 404 ''not found''"
    unfolding wire_checkRead by (rule ex_all_answered)
  have a7: "answered ?c (wire (checkUpdate exampleLibrary ?c ?k (Some ?k))) 404 ''not found''"
    unfolding wire_checkUpdate by (rule ex_all_answered)
  have a8: "answered ?c (wire (checkDelete exampleLibrary ?c ?k (Some ?k))) 404 ''not found''"
    unfolding wire_checkDelete by (rule ex_all_answered)
  note t = non2xx_keeps_state [OF s, of ?c exampleLibrary "''GET''" "''/api/push/hosts''" None None
      "''not found''" exampleHost _ ?k]
  have r: "Diagnostics (hostRead exampleLibrary ?c exampleHost (Some exampleHost)) =
     [\<lparr>Summary = ''Error reading host'',
       Detail = ''API GET /api/push/hosts?address=192.168.1.10 returned status 404: not found''\<rparr>] \<and>
     State (hostRead exampleLibrary ?c exampleHost (Some exampleHost)) = Some exampleHost"
    using t [of "Some exampleHost"] a2
    by (simp add: Itoa_404 exampleLibrary_def exampleHost_def)
  have k: "Diagnostics (checkCreate exampleLibrary ?c ?k None) =
     [\<lparr>Summary = ''Error creating check'',
       Detail = ''API POST /api/push/checks returned status 404: not found''\<rparr>] \<and>
     State (checkCreate exampleLibrary ?c ?k None) = None"
    using t [of _ None] a5
    by (simp add: Itoa_404)
  from s a0 a1 a2 a3 a4 a5 a6 a7 a8 r k show ?thesis by (intro conjI) (erule conjunct1 conjunct2 | assumption)+
qed

lemma DoJSON_URL_cong:
  assumes "TrimRight u ''/'' = TrimRight (URL c) ''/''"
  shows "DoJSON L (c\<lparr>URL := u\<rparr>) meth p body res = DoJSON L c meth p body res"
  by (simp add: DoJSON_unfold buildRequest_URL_cong [OF assms] split: sum.split)

text \<open>
  Claim C9. Whenever \<open>DoJSON\<close> sends a request, its URL is the client's base URL
  with every trailing \<open>/\<close> removed, followed by the path: the stripped string is
  the base URL up to a run of slashes, and is empty or does not end in a slash. Hence
  two clients whose base URLs differ only in the number of trailing slashes behave
  alike in every call: the same request, the same error, the same result.
\<close>

theorem DoJSON_base_url_trailing_slashes:
  "(sent (DoJSON L c meth p body res) = Some q \<longrightarrow> Url q = TrimRight (URL c) ''/'' @ p) \<and>
   (\<exists>n. URL c = TrimRight (URL c) ''/'' @ replicate n CHR ''/'') \<and>
   (TrimRight (URL c) ''/'' = [] \<or> last (TrimRight (URL c) ''/'') \<noteq> CHR ''/'') \<and>
   DoJSON L (c\<lparr>URL := u @ replicate i CHR ''/''\<rparr>) meth p body res =
     DoJSON L (c\<lparr>URL := u @ replicate j CHR ''/''\<rparr>) meth p body res"
proof (intro conjI impI)
  assume "sent (DoJSON L c meth p body res) = Some q"
  then have "buildRequest L c meth p body = Inr q"
    by (simp add: DoJSON_sent split: sum.splits)
  then show "Url q = TrimRight (URL c) ''/'' @ p"
    by (simp add: buildRequest_Url)
next
  show "\<exists>n. URL c = TrimRight (URL c) ''/'' @ replicate n CHR ''/''"
    by (rule TrimRight_decomp)
next
  show "TrimRight (URL c) ''/'' = [] \<or> last (TrimRight (URL c) ''/'') \<noteq> CHR ''/''"
    by (rule TrimRight_last)
next
  let ?c = "c\<lparr>URL := u\<rparr>"
  have "DoJSON L (?c\<lparr>URL := u @ replicate i CHR ''/''\<rparr>) meth p body res = DoJSON L ?c meth p body res"
    by (rule DoJSON_URL_cong) (simp add: TrimRight_replicate)
  moreover have "DoJSON L (?c\<lparr>URL := u @ replicate j CHR ''/''\<rparr>) meth p body res = DoJSON L ?c meth p body res"
    by (rule DoJSON_URL_cong) (simp add: TrimRight_replicate)
  ultimately show "DoJSON L (c\<lparr>URL := u @ replicate i CHR ''/''\<rparr>) meth p body res =
     DoJSON L (c\<lparr>URL := u @ replicate j CHR ''/''\<rparr>) meth p body res"
    by simp
qed

lemma TrimRight_example: "TrimRight ''https://mon.example.com//'' ''/'' = ''https://mon.example.com''"
  by (simp add: TrimRight_def)

theorem DoJSON_base_url_trailing_slashes_witness:
  "sent (DoJSON exampleLibrary (exampleClient 200 []) ''GET'' ''/api/push/hosts?address=192.168.1.10''
           None None) =
     Some \<lparr>Method = ''GET'', Url = ''https://mon.example.com/api/push/hosts?address=192.168.1.10'',
            Body = None,
            Header = [(''Authorization'', ''Bearer secret''), (''Accept'', ''application/json'')]\<rparr> \<and>
   URL (exampleClient 200 []) = ''https://mon.example.com//'' \<and>
   Url \<lparr>Method = ''GET'', Url = ''https://mon.example.com/api/push/hosts?address=192.168.1.10'',
         Body = None,
         Header = [(''Authorization'', ''Bearer secret''), (''Accept'', ''application/json'')]\<rparr> =
     TrimRight (URL (exampleClient 200 [])) ''/'' @ ''/api/push/hosts?address=192.168.1.10''"
proof -
  have s: "sent (DoJSON exampleLibrary (exampleClient 200 []) ''GET'' ''/api/push/hosts?address=192.168.1.10''
           None None) =
     Some \<lparr>Method = ''GET'', Url = ''https://mon.example.com/api/push/hosts?address=192.168.1.10'',
            Body = None,
            Header = [(''Authorization'', ''Bearer secret''), (''Accept'', ''application/json'')]\<rparr>"
    by (simp add: DoJSON_sent buildRequest_def exampleLibrary_def exampleClient_def TrimRight_example)
  have u: "URL (exampleClient 200 []) = ''https://mon.example.com//''"
    by (simp add: exampleClient_def)
  from DoJSON_base_url_trailing_slashes
         [of exampleLibrary "exampleClient 200 []" "''GET''" "''/api/push/hosts?address=192.168.1.10''"
            None None
            "\<lparr>Method = ''GET'', Url = ''https://mon.example.com/api/push/hosts?address=192.168.1.10'',
              Body = None,
              Header = [(''Authorization'', ''Bearer secret''), (''Accept'', ''application/json'')]\<rparr>"]
       s
  have "Url \<lparr>Method = ''GET'', Url = ''https://mon.example.com/api/push/hosts?address=192.168.1.10'',
         Body = None,
         Header = [(''Authorization'', ''Bearer secret''), (''Accept'', ''application/json'')]\<rparr> =
     TrimRight (URL (exampleClient 200 [])) ''/'' @ ''/api/push/hosts?address=192.168.1.10''"
    by blast
  with s u show ?thesis by (intro conjI)
qed

lemma DoJSON_answered_err:
  assumes "answered c (sent (DoJSON L c meth p body res)) st b"
  shows "err (DoJSON L c meth p body res) =
     (if st < 200 \<or> 300 \<le> st then Some (APIError meth p st b)
      else if res = None \<or> b = [] then None
      else map_option UnmarshalError (fst (json_Unmarshal L b (the res))))"
  by (subst DoJSON_answered [OF assms]) simp

lemma DoJSON_answered_result:
  assumes "answered c (sent (DoJSON L c meth p body res)) st b"
  shows "result (DoJSON L c meth p body res) =
     (if st < 200 \<or> 300 \<le> st then res
      else if res = None \<or> b = [] then res
      else Some (snd (json_Unmarshal L b (the res))))"
  by (subst DoJSON_answered [OF assms]) simp

lemma hostDelete_accepted:
  assumes "answered c (wire (hostDelete L c hp hs)) st b" and "200 \<le> st" and "st < 300"
  shows "Diagnostics (hostDelete L c hp hs) = [] \<and> State (hostDelete L c hp hs) = hs"
proof -
  note a = assms(1) [unfolded wire_hostDelete]
  show ?thesis
    using assms(2,3) by (simp add: hostDelete_def Let_def DoJSON_answered_err [OF a])
qed

lemma checkDelete_accepted:
  assumes "answered c (wire (checkDelete L c cp cs)) st b" and "200 \<le> st" and "st < 300"
  shows "Diagnostics (checkDelete L c cp cs) = [] \<and> State (checkDelete L c cp cs) = cs"
proof -
  note a = assms(1) [unfolded wire_checkDelete]
  show ?thesis
    using assms(2,3) by (simp add: checkDelete_def Let_def DoJSON_answered_err [OF a])
qed

text \<open>
  Claim C10. When a call is answered with a status in \<open>[200, 300)\<close> and the body is
  empty or the result destination is \<open>nil\<close>, \<open>DoJSON\<close> returns no error and leaves
  the destination as it was, and \<open>json.Unmarshal\<close> plays no part: replacing it by
  any other function gives the same outcome. An unmarshalling error is returned only by
  a call that had a destination and was answered with a status in \<open>[200, 300)\<close> and
  a non-empty body. Both delete handlers pass \<open>nil\<close>: answered with such a status
  they add no diagnostic and leave the response state alone, whatever the body.
\<close>

theorem DoJSON_skips_decoding:
  "(answered c (sent (DoJSON L c meth p body res)) st b \<and> 200 \<le> st \<and> st < 300 \<and>
      (b = [] \<or> res = None) \<longrightarrow>
      err (DoJSON L c meth p body res) = None \<and>
      result (DoJSON L c meth p body res) = res \<and>
      DoJSON (L\<lparr>json_Unmarshal_host := f, json_Unmarshal_check := g\<rparr>) c meth p body res =
        DoJSON L c meth p body res) \<and>
   (err (DoJSON L' c' meth' p' body' res') = Some (UnmarshalError e) \<longrightarrow>
      res' \<noteq> None \<and>
      (\<exists>st' b'. answered c' (sent (DoJSON L' c' meth' p' body' res')) st' b' \<and>
         200 \<le> st' \<and> st' < 300 \<and> b' \<noteq> [])) \<and>
   (answered c (wire (hostDelete L c hp hs)) st b \<and> 200 \<le> st \<and> st < 300 \<longrightarrow>
      Diagnostics (hostDelete L c hp hs) = [] \<and> State (hostDelete L c hp hs) = hs) \<and>
   (answered c (wire (checkDelete L c cp cs)) st b \<and> 200 \<le> st \<and> st < 300 \<longrightarrow>
      Diagnostics (checkDelete L c cp cs) = [] \<and> State (checkDelete L c cp cs) = cs)"
proof (intro conjI impI)
  assume h: "answered c (sent (DoJSON L c meth p body res)) st b \<and> 200 \<le> st \<and> st < 300 \<and>
      (b = [] \<or> res = None)"
  then have a: "answered c (sent (DoJSON L c meth p body res)) st b"
    and s1: "200 \<le> st" and s2: "st < 300" and n: "b = [] \<or> res = None"
    by simp_all
  show "err (DoJSON L c meth p body res) = None"
    using s1 s2 n by (auto simp add: DoJSON_answered_err [OF a])
  show "result (DoJSON L c meth p body res) = res"
    using s1 s2 n by (auto simp add: DoJSON_answered_result [OF a])
  show "DoJSON (L\<lparr>json_Unmarshal_host := f, json_Unmarshal_check := g\<rparr>) c meth p body res =
        DoJSON L c meth p body res"
    by (rule DoJSON_Unmarshal_irrelevant [OF a s1 s2 n])
next
  assume e: "err (DoJSON L' c' meth' p' body' res') = Some (UnmarshalError e)"
  from DoJSON_UnmarshalError [OF e] show "res' \<noteq> None" by (rule conjunct1)
  from DoJSON_UnmarshalError [OF e]
  show "\<exists>st' b'. answered c' (sent (DoJSON L' c' meth' p' body' res')) st' b' \<and>
         200 \<le> st' \<and> st' < 300 \<and> b' \<noteq> []" by (rule conjunct2)
next
  assume h: "answered c (wire (hostDelete L c hp hs)) st b \<and> 200 \<le> st \<and> st < 300"
  then have r: "Diagnostics (hostDelete L c hp hs) = [] \<and> State (hostDelete L c hp hs) = hs"
    by (intro hostDelete_accepted [of c L hp hs st b]) simp_all
  from r show "Diagnostics (hostDelete L c hp hs) = []" by (rule conjunct1)
  from r show "State (hostDelete L c hp hs) = hs" by (rule conjunct2)
next
  assume h: "answered c (wire (checkDelete L c cp cs)) st b \<and> 200 \<le> st \<and> st < 300"
  then have r: "Diagnostics (checkDelete L c cp cs) = [] \<and> State (checkDelete L c cp cs) = cs"
    by (intro checkDelete_accepted [of c L cp cs st b]) simp_all
  from r show "Diagnostics (checkDelete L c cp cs) = []" by (rule conjunct1)
  from r show "State (checkDelete L c cp cs) = cs" by (rule conjunct2)
qed

lemma broken_err:
  "b \<noteq> [] \<Longrightarrow> 200 \<le> st \<Longrightarrow> st < 300 \<Longrightarrow>
   err (DoJSON brokenLibrary (exampleClient st b) meth p body (Some (HostResult r))) =
     Some (UnmarshalError ''invalid character'')"
  by (subst DoJSON_answered_err [OF broken_all_answered]) (simp add: brokenLibrary_def)

theorem DoJSON_skips_decoding_witness:
  "answered (exampleClient 200 ''<html>'')
     (sent (DoJSON brokenLibrary (exampleClient 200 ''<html>'') ''DELETE'' ''/api/push/hosts''
        (Some (HostDelete \<lparr>hd_Address = ''192.168.1.10''\<rparr>)) None)) 200 ''<html>'' \<and>
   err (DoJSON brokenLibrary (exampleClient 200 ''<html>'') ''DELETE'' ''/api/push/hosts''
        (Some (HostDelete \<lparr>hd_Address = ''192.168.1.10''\<rparr>)) None) = None \<and>
   result (DoJSON brokenLibrary (exampleClient 200 ''<html>'') ''DELETE'' ''/api/push/hosts''
        (Some (HostDelete \<lparr>hd_Address = ''192.168.1.10''\<rparr>)) None) = None \<and>
   err (DoJSON brokenLibrary (exampleClient 200 ''<html>'') ''GET'' ''/api/push/hosts?address=192.168.1.10''
        None (Some (HostResult zeroHostAPIResponse))) = Some (UnmarshalError ''invalid character'') \<and>
   answered (exampleClient 200 ''<html>'')
     (sent (DoJSON brokenLibrary (exampleClient 200 ''<html>'') ''GET'' ''/api/push/hosts?address=192.168.1.10''
        None (Some (HostResult zeroHostAPIResponse)))) 200 ''<html>'' \<and>
   answered (exampleClient 200 ''<html>'')
     (wire (hostDelete brokenLibrary (exampleClient 200 ''<html>'') exampleHost (Some exampleHost)))
     200 ''<html>'' \<and>
   Diagnostics (hostDelete brokenLibrary (exampleClient 200 ''<html>'') exampleHost (Some exampleHost)) = [] \<and>
   State (hostDelete brokenLibrary (exampleClient 200 ''<html>'') exampleHost (Some exampleHost)) =
     Some exampleHost \<and>
   answered (exampleClient 200 ''<html>'')
     (wire (checkDelete brokenLibrary (exampleClient 200 ''<html>'') (exampleCheck ''192.168.1.10'')
        (Some (exampleCheck ''192.168.1.10''))))
     200 ''<html>'' \<and>
   Diagnostics (checkDelete brokenLibrary (exampleClient 200 ''<html>'') (exampleCheck ''192.168.1.10'')
        (Some (exampleCheck ''192.168.1.10''))) = [] \<and>
   answered (exampleClient 204 [])
     (sent (DoJSON brokenLibrary (exampleClient 204 []) ''GET'' ''/api/push/hosts?address=192.168.1.10''
        None (Some (HostResult zeroHostAPIResponse)))) 204 [] \<and>
   err (DoJSON brokenLibrary (exampleClient 204 []) ''GET'' ''/api/push/hosts?address=192.168.1.10''
        None (Some (HostResult zeroHostAPIResponse))) = None \<and>
   result (DoJSON brokenLibrary (exampleClient 204 []) ''GET'' ''/api/push/hosts?address=192.168.1.10''
        None (Some (HostResult zeroHostAPIResponse))) = Some (HostResult zeroHostAPIResponse)"
proof -
  let ?c = "exampleClient 200 ''<html>''"
  let ?d = "Some (HostDelete \<lparr>hd_Address = ''192.168.1.10''\<rparr>)"
  let ?k = "exampleCheck ''192.168.1.10''"
  let ?g = "''/api/push/hosts?address=192.168.1.10''"
  let ?z = "Some (HostResult zeroHostAPIResponse)"
  have a1: "answered ?c (sent (DoJSON brokenLibrary ?c ''DELETE'' ''/api/push/hosts'' ?d None)) 200 ''<html>''"
    by (rule broken_all_answered)
  have e2: "err (DoJSON brokenLibrary ?c ''GET'' ?g None ?z) = Some (UnmarshalError ''invalid character'')"
    by (rule broken_err) simp_all
  have a3: "answered ?c (wire (hostDelete brokenLibrary ?c exampleHost (Some exampleHost))) 200 ''<html>''"
    unfolding wire_hostDelete by (rule broken_all_answered)
  have a4: "answered ?c (wire (checkDelete brokenLibrary ?c ?k (Some ?k))) 200 ''<html>''"
    unfolding wire_checkDelete by (rule broken_all_answered)
  have a5: "answered (exampleClient 204 [])
     (sent (DoJSON brokenLibrary (exampleClient 204 []) ''GET'' ?g None ?z)) 204 []"
    by (rule broken_all_answered)
  note t1 = DoJSON_skips_decoding
    [of ?c brokenLibrary "''DELETE''" "''/api/push/hosts''" ?d None 200 "''<html>''" _ _
        brokenLibrary ?c "''GET''" ?g None ?z "''invalid character''"
        exampleHost "Some exampleHost" ?k "Some ?k"]
  note t2 = DoJSON_skips_decoding
    [of "exampleClient 204 []" brokenLibrary "''GET''" ?g None ?z 204 "[]"]
  have c1: "err (DoJSON brokenLibrary ?c ''DELETE'' ''/api/push/hosts'' ?d None) = None \<and>
      result (DoJSON brokenLibrary ?c ''DELETE'' ''/api/push/hosts'' ?d None) = None"
    using t1 a1 by simp
  have c2: "answered ?c (sent (DoJSON brokenLibrary ?c ''GET'' ?g None ?z)) 200 ''<html>''"
    by (rule broken_all_answered)
  have c3: "Diagnostics (hostDelete brokenLibrary ?c exampleHost (Some exampleHost)) = [] \<and>
      State (hostDelete brokenLibrary ?c exampleHost (Some exampleHost)) = Some exampleHost"
    using t1 a3 by simp
  have c4: "Diagnostics (checkDelete brokenLibrary ?c ?k (Some ?k)) = []"
    using t1 a4 by simp
  have c5: "err (DoJSON brokenLibrary (exampleClient 204 []) ''GET'' ?g None ?z) = None \<and>
      result (DoJSON brokenLibrary (exampleClient 204 []) ''GET'' ?g None ?z) = ?z"
    using t2 a5 by simp
  from a1 c1 e2 c2 a3 c3 a4 c4 a5 c5 show ?thesis
    by (intro conjI) (erule conjunct1 conjunct2 | assumption)+
qed

section \<open>Upserts and the enabled flag\<close>

lemma sent_POST:
  "sent (DoJSON L c ''POST'' p (Some body) res) = upsertRequest L c p body"
  by (simp add: DoJSON_sent buildRequest_def upsertRequest_def split: sum.split option.split)

text \<open>
  Claim C4. For every plan, the create handler and the update handler of a resource
  put the same request on the wire: a \<open>POST\<close> to \<open>/api/push/hosts\<close> (for a check,
  \<open>/api/push/checks\<close>) under the base URL, whose body is the marshalled request
  struct built from the plan's attributes in the same way by both. Given the same
  response state they also leave the same state; only the summary of the error
  diagnostic names the operation.
\<close>

theorem create_update_same_upsert:
  "wire (hostCreate L c hp hs) =
     upsertRequest L c ''/api/push/hosts''
       (HostRequest
          \<lparr>hq_Address = ValueString (hm_Address hp), hq_Name = ValueString (hm_Name hp),
           hq_Description = ValueString (hm_Description hp), hq_Topic = ValueString (hm_Topic hp),
           hq_Enabled = (if \<not> IsNull (hm_Enabled hp) \<and> \<not> ValueBool (hm_Enabled hp)
                         then 0 else 1)\<rparr>) \<and>
   wire (hostUpdate L c hp hs') = wire (hostCreate L c hp hs) \<and>
   wire (checkCreate L c cp cs) =
     upsertRequest L c ''/api/push/checks''
       (CheckRequest
          \<lparr>cq_HostAddress = ValueString (cm_HostAddress cp), cq_Type = ValueString (cm_Type cp),
           cq_Config = ValueString (cm_Config cp),
           cq_IntervalSeconds = ValueInt64 (cm_IntervalSeconds cp),
           cq_Enabled = (if \<not> IsNull (cm_Enabled cp) \<and> \<not> ValueBool (cm_Enabled cp)
                         then 0 else 1)\<rparr>) \<and>
   wire (checkUpdate L c cp cs') = wire (checkCreate L c cp cs) \<and>
   hostUpdateBody hp = hostCreateBody hp \<and>
   checkUpdateBody cp = checkCreateBody cp \<and>
   State (hostUpdate L c hp hs) = State (hostCreate L c hp hs) \<and>
   State (checkUpdate L c cp cs) = State (checkCreate L c cp cs)"
proof (intro conjI)
  have hb: "hostUpdateBody hp = hostCreateBody hp"
    by (simp add: hostUpdateBody_def hostCreateBody_def)
  have cb: "checkUpdateBody cp = checkCreateBody cp"
    by (simp add: checkUpdateBody_def checkCreateBody_def)
  show "hostUpdateBody hp = hostCreateBody hp" by (rule hb)
  show "checkUpdateBody cp = checkCreateBody cp" by (rule cb)
  show "wire (hostCreate L c hp hs) =
     upsertRequest L c ''/api/push/hosts''
       (HostRequest
          \<lparr>hq_Address = ValueString (hm_Address hp), hq_Name = ValueString (hm_Name hp),
           hq_Description = ValueString (hm_Description hp), hq_Topic = ValueString (hm_Topic hp),
           hq_Enabled = (if \<not> IsNull (hm_Enabled hp) \<and> \<not> ValueBool (hm_Enabled hp)
                         then 0 else 1)\<rparr>)"
    by (simp only: wire_hostCreate sent_POST hostCreateBody_def Let_def)
  show "wire (hostUpdate L c hp hs') = wire (hostCreate L c hp hs)"
    by (simp only: wire_hostUpdate wire_hostCreate hb)
  show "wire (checkCreate L c cp cs) =
     upsertRequest L c ''/api/push/checks''
       (CheckRequest
          \<lparr>cq_HostAddress = ValueString (cm_HostAddress cp), cq_Type = ValueString (cm_Type cp),
           cq_Config = ValueString (cm_Config cp),
           cq_IntervalSeconds = ValueInt64 (cm_IntervalSeconds cp),
           cq_Enabled = (if \<not> IsNull (cm_Enabled cp) \<and> \<not> ValueBool (cm_Enabled cp)
                         then 0 else 1)\<rparr>)"
    by (simp only: wire_checkCreate sent_POST checkCreateBody_def Let_def)
  show "wire (checkUpdate L c cp cs') = wire (checkCreate L c cp cs)"
    by (simp only: wire_checkUpdate wire_checkCreate cb)
  show "State (hostUpdate L c hp hs) = State (hostCreate L c hp hs)"
    by (simp add: hostUpdate_def hostCreate_def hb Let_def split: option.split)
  show "State (checkUpdate L c cp cs) = State (checkCreate L c cp cs)"
    by (simp add: checkUpdate_def checkCreate_def cb Let_def split: option.split)
qed

text \<open>
  Claim C3. In the request body of every upsert (create and update, host and check),
  \<open>enabled = false\<close> is sent as \<open>0\<close>, and \<open>enabled\<close> null or \<open>true\<close> is sent as
  \<open>1\<close>. Reading a response, \<open>0\<close> becomes \<open>false\<close> and every other integer becomes
  \<open>true\<close>. A known boolean that is encoded and decoded again is unchanged; a wire
  value that is decoded and encoded again becomes \<open>0\<close> when it was \<open>0\<close> and \<open>1\<close>
  otherwise, so \<open>0\<close> and \<open>1\<close> are unchanged.
\<close>

theorem enabled_wire_roundtrip:
  "hq_Enabled (hostCreateBody (hp\<lparr>hm_Enabled := Known False\<rparr>)) = 0 \<and>
   hq_Enabled (hostCreateBody (hp\<lparr>hm_Enabled := Null\<rparr>)) = 1 \<and>
   hq_Enabled (hostCreateBody (hp\<lparr>hm_Enabled := Known True\<rparr>)) = 1 \<and>
   hq_Enabled (hostUpdateBody (hp\<lparr>hm_Enabled := Known False\<rparr>)) = 0 \<and>
   hq_Enabled (hostUpdateBody (hp\<lparr>hm_Enabled := Null\<rparr>)) = 1 \<and>
   hq_Enabled (hostUpdateBody (hp\<lparr>hm_Enabled := Known True\<rparr>)) = 1 \<and>
   cq_Enabled (checkCreateBody (cp\<lparr>cm_Enabled := Known False\<rparr>)) = 0 \<and>
   cq_Enabled (checkCreateBody (cp\<lparr>cm_Enabled := Null\<rparr>)) = 1 \<and>
   cq_Enabled (checkCreateBody (cp\<lparr>cm_Enabled := Known True\<rparr>)) = 1 \<and>
   cq_Enabled (checkUpdateBody (cp\<lparr>cm_Enabled := Known False\<rparr>)) = 0 \<and>
   cq_Enabled (checkUpdateBody (cp\<lparr>cm_Enabled := Null\<rparr>)) = 1 \<and>
   cq_Enabled (checkUpdateBody (cp\<lparr>cm_Enabled := Known True\<rparr>)) = 1 \<and>
   hm_Enabled (mapHostResponseToState hr hs) = Known (hr_Enabled hr \<noteq> 0) \<and>
   cm_Enabled (mapCheckResponseToState cr cs) = Known (cr_Enabled cr \<noteq> 0) \<and>
   hm_Enabled (mapHostResponseToState
       (hr\<lparr>hr_Enabled := hq_Enabled (hostCreateBody (hp\<lparr>hm_Enabled := Known v\<rparr>))\<rparr>) hs) = Known v \<and>
   hm_Enabled (mapHostResponseToState
       (hr\<lparr>hr_Enabled := hq_Enabled (hostUpdateBody (hp\<lparr>hm_Enabled := Known v\<rparr>))\<rparr>) hs) = Known v \<and>
   cm_Enabled (mapCheckResponseToState
       (cr\<lparr>cr_Enabled := cq_Enabled (checkCreateBody (cp\<lparr>cm_Enabled := Known v\<rparr>))\<rparr>) cs) = Known v \<and>
   cm_Enabled (mapCheckResponseToState
       (cr\<lparr>cr_Enabled := cq_Enabled (checkUpdateBody (cp\<lparr>cm_Enabled := Known v\<rparr>))\<rparr>) cs) = Known v \<and>
   hq_Enabled (hostCreateBody (mapHostResponseToState (hr\<lparr>hr_Enabled := w\<rparr>) hs)) =
     (if w = 0 then 0 else 1) \<and>
   hq_Enabled (hostUpdateBody (mapHostResponseToState (hr\<lparr>hr_Enabled := w\<rparr>) hs)) =
     (if w = 0 then 0 else 1) \<and>
   cq_Enabled (checkCreateBody (mapCheckResponseToState (cr\<lparr>cr_Enabled := w\<rparr>) cs)) =
     (if w = 0 then 0 else 1) \<and>
   cq_Enabled (checkUpdateBody (mapCheckResponseToState (cr\<lparr>cr_Enabled := w\<rparr>) cs)) =
     (if w = 0 then 0 else 1)"
  by (simp add: hostCreateBody_def hostUpdateBody_def checkCreateBody_def checkUpdateBody_def
        mapHostResponseToState_def mapCheckResponseToState_def)

section \<open>Reading, configuration and schemas\<close>

lemma hostRead_success:
  assumes "answered c (wire (hostRead L c hp hs)) st b"
    and "Diagnostics (hostRead L c hp hs) = []"
  shows "State (hostRead L c hp hs) =
     Some (mapHostResponseToState
             (if b = [] then zeroHostAPIResponse
              else snd (json_Unmarshal_host L b zeroHostAPIResponse)) hp)"
proof -
  note a = assms(1) [unfolded wire_hostRead]
  let ?d = "DoJSON L c ''GET''
             (''/api/push/hosts?address='' @ url_QueryEscape L (ValueString (hm_Address hp)))
             None (Some (HostResult zeroHostAPIResponse))"
  have e: "err ?d = None"
    using assms(2) by (simp add: hostRead_def Let_def split: option.splits)
  then have ok: "\<not> (st < 200 \<or> 300 \<le> st)"
    using DoJSON_answered_err [OF a] by (auto split: if_splits)
  have r: "hostResultOf (result ?d) =
      (if b = [] then zeroHostAPIResponse else snd (json_Unmarshal_host L b zeroHostAPIResponse))"
    by (subst DoJSON_answered_result [OF a]) (use ok in \<open>simp split: prod.split\<close>)
  have "State (hostRead L c hp hs) = Some (mapHostResponseToState (hostResultOf (result ?d)) hp)"
    using e by (simp add: hostRead_def Let_def)
  then show ?thesis by (simp only: r)
qed

lemma checkRead_success:
  assumes "answered c (wire (checkRead L c cp cs)) st b"
    and "Diagnostics (checkRead L c cp cs) = []"
  shows "State (checkRead L c cp cs) =
     Some (mapCheckResponseToState
             (if b = [] then zeroCheckAPIResponse
              else snd (json_Unmarshal_check L b zeroCheckAPIResponse)) cp)"
proof -
  note a = assms(1) [unfolded wire_checkRead]
  let ?d = "DoJSON L c ''GET''
             (''/api/push/checks?host_address=''
                @ url_QueryEscape L (ValueString (cm_HostAddress cp))
                @ ''&type='' @ url_QueryEscape L (ValueString (cm_Type cp))
                @ ''&config='' @ url_QueryEscape L (ValueString (cm_Config cp)))
             None (Some (CheckResult zeroCheckAPIResponse))"
  have e: "err ?d = None"
    using assms(2) by (simp add: checkRead_def Let_def split: option.splits)
  then have ok: "\<not> (st < 200 \<or> 300 \<le> st)"
    using DoJSON_answered_err [OF a] by (auto split: if_splits)
  have r: "checkResultOf (result ?d) =
      (if b = [] then zeroCheckAPIResponse else snd (json_Unmarshal_check L b zeroCheckAPIResponse))"
    by (subst DoJSON_answered_result [OF a]) (use ok in \<open>simp split: prod.split\<close>)
  have "State (checkRead L c cp cs) = Some (mapCheckResponseToState (checkResultOf (result ?d)) cp)"
    using e by (simp add: checkRead_def Let_def)
  then show ?thesis by (simp only: r)
qed

text \<open>
  Claim C5, as amended. Let a read be answered with body \<open>b\<close> and add no diagnostic
  (a successful fetch), and let the decoded response be the zero struct when \<open>b\<close> is
  empty and what \<open>json.Unmarshal\<close> leaves in the zero struct otherwise. A host read
  then overwrites all six attributes (\<open>id\<close>, \<open>address\<close>, \<open>name\<close>,
  \<open>description\<close>, \<open>topic\<close>, \<open>enabled\<close>) with the decoded values. A check read
  overwrites \<open>id\<close>, \<open>type\<close>, \<open>config\<close>, \<open>interval_seconds\<close> and \<open>enabled\<close> with
  the decoded values and keeps \<open>host_address\<close> as it was in the prior state: the
  response struct of a check has no host address.
\<close>

theorem read_overwrites_from_response:
  "(answered c (wire (hostRead L c hp hs)) st b \<and> Diagnostics (hostRead L c hp hs) = [] \<and>
    hr = (if b = [] then zeroHostAPIResponse else snd (json_Unmarshal_host L b zeroHostAPIResponse)) \<longrightarrow>
      State (hostRead L c hp hs) =
        Some \<lparr>hm_ID = Known (hr_ID hr), hm_Address = Known (hr_Address hr),
              hm_Name = Known (hr_Name hr), hm_Description = Known (hr_Description hr),
              hm_Topic = Known (hr_Topic hr), hm_Enabled = Known (hr_Enabled hr \<noteq> 0)\<rparr>) \<and>
   (answered c (wire (checkRead L c cp cs)) st b \<and> Diagnostics (checkRead L c cp cs) = [] \<and>
    cr = (if b = [] then zeroCheckAPIResponse else snd (json_Unmarshal_check L b zeroCheckAPIResponse)) \<longrightarrow>
      State (checkRead L c cp cs) =
        Some \<lparr>cm_ID = Known (cr_ID cr), cm_HostAddress = cm_HostAddress cp,
              cm_Type = Known (cr_Type cr), cm_Config = Known (cr_Config cr),
              cm_IntervalSeconds = Known (cr_IntervalSeconds cr),
              cm_Enabled = Known (cr_Enabled cr \<noteq> 0)\<rparr>)"
proof (intro conjI impI)
  assume h: "answered c (wire (hostRead L c hp hs)) st b \<and> Diagnostics (hostRead L c hp hs) = [] \<and>
    hr = (if b = [] then zeroHostAPIResponse else snd (json_Unmarshal_host L b zeroHostAPIResponse))"
  then have "State (hostRead L c hp hs) = Some (mapHostResponseToState hr hp)"
    using hostRead_success [of c L hp hs st b] by simp
  then show "State (hostRead L c hp hs) =
        Some \<lparr>hm_ID = Known (hr_ID hr), hm_Address = Known (hr_Address hr),
              hm_Name = Known (hr_Name hr), hm_Description = Known (hr_Description hr),
              hm_Topic = Known (hr_Topic hr), hm_Enabled = Known (hr_Enabled hr \<noteq> 0)\<rparr>"
    by (simp add: mapHostResponseToState_def)
next
  assume h: "answered c (wire (checkRead L c cp cs)) st b \<and> Diagnostics (checkRead L c cp cs) = [] \<and>
    cr = (if b = [] then zeroCheckAPIResponse else snd (json_Unmarshal_check L b zeroCheckAPIResponse))"
  then have "State (checkRead L c cp cs) = Some (mapCheckResponseToState cr cp)"
    using checkRead_success [of c L cp cs st b] by simp
  then show "State (checkRead L c cp cs) =
        Some \<lparr>cm_ID = Known (cr_ID cr), cm_HostAddress = cm_HostAddress cp,
              cm_Type = Known (cr_Type cr), cm_Config = Known (cr_Config cr),
              cm_IntervalSeconds = Known (cr_IntervalSeconds cr),
              cm_Enabled = Known (cr_Enabled cr \<noteq> 0)\<rparr>"
    by (simp add: mapCheckResponseToState_def)
qed

lemma ex_hostRead_ok:
  "b \<noteq> [] \<Longrightarrow> Diagnostics (hostRead exampleLibrary (exampleClient 200 b) hp hs) = []"
  unfolding hostRead_def Let_def
  by (subst DoJSON_answered_err [OF ex_all_answered])
     (simp add: exampleLibrary_def)

lemma ex_checkRead_ok:
  "b \<noteq> [] \<Longrightarrow> Diagnostics (checkRead exampleLibrary (exampleClient 200 b) cp cs) = []"
  unfolding checkRead_def Let_def
  by (subst DoJSON_answered_err [OF ex_all_answered])
     (simp add: exampleLibrary_def)

lemma ex_hostRead_answered:
  "answered (exampleClient st b) (wire (hostRead exampleLibrary (exampleClient st b) hp hs)) st b"
  unfolding wire_hostRead by (rule ex_all_answered)

lemma ex_checkRead_answered:
  "answered (exampleClient st b) (wire (checkRead exampleLibrary (exampleClient st b) cp cs)) st b"
  unfolding wire_checkRead by (rule ex_all_answered)

lemma exampleBody_nonempty: "exampleBody \<noteq> []"
  by (simp add: exampleBody_def)

theorem read_overwrites_from_response_witness:
  "answered (exampleClient 200 exampleBody)
     (wire (hostRead exampleLibrary (exampleClient 200 exampleBody)
        (exampleHost\<lparr>hm_Name := Known ''Old name'', hm_Enabled := Known False\<rparr>) None))
     200 exampleBody \<and>
   Diagnostics (hostRead exampleLibrary (exampleClient 200 exampleBody)
        (exampleHost\<lparr>hm_Name := Known ''Old name'', hm_Enabled := Known False\<rparr>) None) = [] \<and>
   State (hostRead exampleLibrary (exampleClient 200 exampleBody)
        (exampleHost\<lparr>hm_Name := Known ''Old name'', hm_Enabled := Known False\<rparr>) None) =
     Some \<lparr>hm_ID = Known 7, hm_Address = Known ''192.168.1.10'', hm_Name = Known ''Webserver'',
           hm_Description = Known [], hm_Topic = Known [], hm_Enabled = Known True\<rparr> \<and>
   answered (exampleClient 200 exampleBody)
     (wire (checkRead exampleLibrary (exampleClient 200 exampleBody)
        ((exampleCheck ''10.0.0.1'')\<lparr>cm_IntervalSeconds := Known 60, cm_Enabled := Known False\<rparr>) None))
     200 exampleBody \<and>
   Diagnostics (checkRead exampleLibrary (exampleClient 200 exampleBody)
        ((exampleCheck ''10.0.0.1'')\<lparr>cm_IntervalSeconds := Known 60, cm_Enabled := Known False\<rparr>) None) = [] \<and>
   State (checkRead exampleLibrary (exampleClient 200 exampleBody)
        ((exampleCheck ''10.0.0.1'')\<lparr>cm_IntervalSeconds := Known 60, cm_Enabled := Known False\<rparr>) None) =
     Some \<lparr>cm_ID = Known 3, cm_HostAddress = Known ''10.0.0.1'', cm_Type = Known ''ping'',
           cm_Config = Known ''{}'', cm_IntervalSeconds = Known 300, cm_Enabled = Known True\<rparr>"
proof -
  let ?c = "exampleClient 200 exampleBody"
  let ?h = "exampleHost\<lparr>hm_Name := Known ''Old name'', hm_Enabled := Known False\<rparr>"
  let ?k = "(exampleCheck ''10.0.0.1'')\<lparr>cm_IntervalSeconds := Known 60, cm_Enabled := Known False\<rparr>"
  have a1: "answered ?c (wire (hostRead exampleLibrary ?c ?h None)) 200 exampleBody"
    by (rule ex_hostRead_answered)
  have d1: "Diagnostics (hostRead exampleLibrary ?c ?h None) = []"
    by (rule ex_hostRead_ok [OF exampleBody_nonempty])
  have a2: "answered ?c (wire (checkRead exampleLibrary ?c ?k None)) 200 exampleBody"
    by (rule ex_checkRead_answered)
  have d2: "Diagnostics (checkRead exampleLibrary ?c ?k None) = []"
    by (rule ex_checkRead_ok [OF exampleBody_nonempty])
  note t = read_overwrites_from_response
    [of ?c exampleLibrary ?h None 200 exampleBody
        "snd (json_Unmarshal_host exampleLibrary exampleBody zeroHostAPIResponse)"
        ?k None
        "snd (json_Unmarshal_check exampleLibrary exampleBody zeroCheckAPIResponse)"]
  have s1: "State (hostRead exampleLibrary ?c ?h None) =
     Some \<lparr>hm_ID = Known 7, hm_Address = Known ''192.168.1.10'', hm_Name = Known ''Webserver'',
           hm_Description = Known [], hm_Topic = Known [], hm_Enabled = Known True\<rparr>"
    using t a1 d1 exampleBody_nonempty
    by (simp add: exampleLibrary_def zeroHostAPIResponse_def)
  have s2: "State (checkRead exampleLibrary ?c ?k None) =
     Some \<lparr>cm_ID = Known 3, cm_HostAddress = Known ''10.0.0.1'', cm_Type = Known ''ping'',
           cm_Config = Known ''{}'', cm_IntervalSeconds = Known 300, cm_Enabled = Known True\<rparr>"
    using t a2 d2 exampleBody_nonempty
    by (simp add: exampleLibrary_def zeroCheckAPIResponse_def exampleCheck_def)
  from a1 d1 s1 a2 d2 s2 show ?thesis by (intro conjI)
qed

text \<open>
  Claim C5 as stated fails for \<open>host_address\<close> of a check. Two reads of checks that
  differ only in \<open>host_address\<close> receive the same response (status 200, the same
  body, the same decoded struct) and both succeed, yet each ends with the
  \<open>host_address\<close> it started with, so the two resulting states differ: the
  attribute is not taken from the response.
\<close>

theorem checkRead_host_address_counterexample:
  "answered (exampleClient 200 exampleBody)
     (wire (checkRead exampleLibrary (exampleClient 200 exampleBody) (exampleCheck ''10.0.0.1'')
        (Some (exampleCheck ''10.0.0.1'')))) 200 exampleBody \<and>
   answered (exampleClient 200 exampleBody)
     (wire (checkRead exampleLibrary (exampleClient 200 exampleBody) (exampleCheck ''10.0.0.2'')
        (Some (exampleCheck ''10.0.0.2'')))) 200 exampleBody \<and>
   Diagnostics (checkRead exampleLibrary (exampleClient 200 exampleBody) (exampleCheck ''10.0.0.1'')
        (Some (exampleCheck ''10.0.0.1''))) = [] \<and>
   Diagnostics (checkRead exampleLibrary (exampleClient 200 exampleBody) (exampleCheck ''10.0.0.2'')
        (Some (exampleCheck ''10.0.0.2''))) = [] \<and>
   State (checkRead exampleLibrary (exampleClient 200 exampleBody) (exampleCheck ''10.0.0.1'')
        (Some (exampleCheck ''10.0.0.1''))) =
     Some \<lparr>cm_ID = Known 3, cm_HostAddress = Known ''10.0.0.1'', cm_Type = Known ''ping'',
           cm_Config = Known ''{}'', cm_IntervalSeconds = Known 300, cm_Enabled = Known True\<rparr> \<and>
   State (checkRead exampleLibrary (exampleClient 200 exampleBody) (exampleCheck ''10.0.0.2'')
        (Some (exampleCheck ''10.0.0.2''))) =
     Some \<lparr>cm_ID = Known 3, cm_HostAddress = Known ''10.0.0.2'', cm_Type = Known ''ping'',
           cm_Config = Known ''{}'', cm_IntervalSeconds = Known 300, cm_Enabled = Known True\<rparr> \<and>
   State (checkRead exampleLibrary (exampleClient 200 exampleBody) (exampleCheck ''10.0.0.1'')
        (Some (exampleCheck ''10.0.0.1''))) \<noteq>
     State (checkRead exampleLibrary (exampleClient 200 exampleBody) (exampleCheck ''10.0.0.2'')
        (Some (exampleCheck ''10.0.0.2'')))"
proof -
  have s: "State (checkRead exampleLibrary (exampleClient 200 exampleBody) (exampleCheck a)
        (Some (exampleCheck a))) =
      Some \<lparr>cm_ID = Known 3, cm_HostAddress = Known a, cm_Type = Known ''ping'',
            cm_Config = Known ''{}'', cm_IntervalSeconds = Known 300, cm_Enabled = Known True\<rparr>" for a
    by (subst checkRead_success [OF ex_checkRead_answered ex_checkRead_ok [OF exampleBody_nonempty]])
       (simp add: exampleBody_nonempty exampleLibrary_def mapCheckResponseToState_def
          zeroCheckAPIResponse_def exampleCheck_def)
  have n: "State (checkRead exampleLibrary (exampleClient 200 exampleBody) (exampleCheck ''10.0.0.1'')
        (Some (exampleCheck ''10.0.0.1''))) \<noteq>
     State (checkRead exampleLibrary (exampleClient 200 exampleBody) (exampleCheck ''10.0.0.2'')
        (Some (exampleCheck ''10.0.0.2'')))"
    by (simp add: s)
  show ?thesis
    by (intro conjI ex_checkRead_answered ex_checkRead_ok [OF exampleBody_nonempty] s n)
qed

text \<open>
  Claim C6. Each of the base URL and the API key resolves to the configured value
  when that is known, and to the value of \<open>TINYMON_URL\<close> or \<open>TINYMON_API_KEY\<close>
  otherwise. \<open>Configure\<close> reports an error exactly when one of the two resolved
  values is empty (one diagnostic for each empty value); in that case it hands no client
  to the resources or data sources, and otherwise it hands both the client made of the
  two resolved values.
\<close>

theorem Configure_resolution:
  "(cfg_Diagnostics (Configure Getenv h cfg) \<noteq> [] \<longleftrightarrow>
      resolve (pm_URL cfg) (Getenv ''TINYMON_URL'') = [] \<or>
      resolve (pm_APIKey cfg) (Getenv ''TINYMON_API_KEY'') = []) \<and>
   map Summary (cfg_Diagnostics (Configure Getenv h cfg)) =
     (if resolve (pm_URL cfg) (Getenv ''TINYMON_URL'') = [] then [''Missing TinyMon URL''] else []) @
     (if resolve (pm_APIKey cfg) (Getenv ''TINYMON_API_KEY'') = []
      then [''Missing TinyMon API Key''] else []) \<and>
   ResourceData (Configure Getenv h cfg) =
     (if resolve (pm_URL cfg) (Getenv ''TINYMON_URL'') = [] \<or>
         resolve (pm_APIKey cfg) (Getenv ''TINYMON_API_KEY'') = []
      then None
      else Some \<lparr>URL = resolve (pm_URL cfg) (Getenv ''TINYMON_URL''),
                 APIKey = resolve (pm_APIKey cfg) (Getenv ''TINYMON_API_KEY''), HTTP = h\<rparr>) \<and>
   DataSourceData (Configure Getenv h cfg) = ResourceData (Configure Getenv h cfg)"
proof -
  have u: "(if \<not> IsNull (pm_URL cfg) \<and> \<not> IsUnknown (pm_URL cfg)
            then ValueString (pm_URL cfg) else Getenv ''TINYMON_URL'') =
           resolve (pm_URL cfg) (Getenv ''TINYMON_URL'')"
    by (cases "pm_URL cfg") (simp_all add: resolve_def)
  have k: "(if \<not> IsNull (pm_APIKey cfg) \<and> \<not> IsUnknown (pm_APIKey cfg)
            then ValueString (pm_APIKey cfg) else Getenv ''TINYMON_API_KEY'') =
           resolve (pm_APIKey cfg) (Getenv ''TINYMON_API_KEY'')"
    by (cases "pm_APIKey cfg") (simp_all add: resolve_def)
  show ?thesis
    unfolding Configure_def Let_def u k by simp
qed

text \<open>
  Claim C7. The host schema has the attributes \<open>id\<close>, \<open>address\<close>, \<open>name\<close>,
  \<open>description\<close>, \<open>topic\<close> and \<open>enabled\<close>, and \<open>address\<close> is the only one that
  forces replacement. The check schema has \<open>id\<close>, \<open>host_address\<close>, \<open>type\<close>,
  \<open>config\<close>, \<open>interval_seconds\<close> and \<open>enabled\<close>, and exactly \<open>host_address\<close>,
  \<open>type\<close> and \<open>config\<close> force replacement. So \<open>name\<close>, \<open>description\<close>,
  \<open>topic\<close>, \<open>enabled\<close> and \<open>interval_seconds\<close> do not.
\<close>

theorem schema_identity_partition:
  "map fst hostSchema = [''id'', ''address'', ''name'', ''description'', ''topic'', ''enabled''] \<and>
   (forcesReplacement hostSchema n \<longleftrightarrow> n = ''address'') \<and>
   map fst checkSchema =
     [''id'', ''host_address'', ''type'', ''config'', ''interval_seconds'', ''enabled''] \<and>
   (forcesReplacement checkSchema n \<longleftrightarrow> n = ''host_address'' \<or> n = ''type'' \<or> n = ''config'')"
  by (simp add: forcesReplacement_def hostSchema_def checkSchema_def)

end
